theory Spec2Isabelle
  imports Complex_Main
begin

section \<open>Data model\<close>

text \<open>
  The reporting code of the time-tracking application lives in three React pages:
  \<^verbatim>\<open>src/pages/Reports.tsx\<close>, \<^verbatim>\<open>src/pages/Dashboard.tsx\<close> and
  \<^verbatim>\<open>src/pages/TimeEntries.tsx\<close>. Each page declares its own \<^verbatim>\<open>TimeEntry\<close>
  interface over the same database row (\<^verbatim>\<open>select *\<close> on \<^verbatim>\<open>time_entries\<close>, joined with
  the task and the customer); the record below is that row, with every column one of the
  pages reads.

  Conventions of the embedding.
  \<^item> A JavaScript \<^verbatim>\<open>Date\<close> is its time value: milliseconds since the epoch, an \<open>int\<close>.
    Timestamp columns (\<^verbatim>\<open>timestamptz\<close>) arrive as ISO strings with an offset, which
    \<^verbatim>\<open>new Date\<close> and \<^verbatim>\<open>parseISO\<close> read as the same instant; they are stored parsed.
  \<^item> A date-only string \<^verbatim>\<open>yyyy-MM-dd\<close> (the \<^verbatim>\<open>date\<close> column, the filter's bounds) is
    stored as its day number, the days since 1970-01-01. \<^verbatim>\<open>new Date\<close> reads such a string
    as midnight UTC, \<^verbatim>\<open>parseISO\<close> as local midnight; both readings are modelled.
  \<^item> Local time is UTC plus a fixed offset \<open>tz\<close> in milliseconds (no daylight saving).
  \<^item> \<^verbatim>\<open>null\<close>, \<^verbatim>\<open>undefined\<close> and the empty string of an optional text column
    are \<open>None\<close>: the code only tests such columns for truthiness.
  \<^item> \<^verbatim>\<open>created_at\<close> is a \<^verbatim>\<open>timestamptz\<close> column with a default and no
    \<^verbatim>\<open>NOT NULL\<close>: it is optional, like the other timestamps.
  \<^item> \<^verbatim>\<open>duration_minutes\<close> is an \<^verbatim>\<open>integer\<close> column, \<^verbatim>\<open>rate\<close> a
    \<^verbatim>\<open>decimal(10,2)\<close>. The code computes hours and amounts in IEEE doubles; the model
    computes them in exact rationals. The two agree where every intermediate value is
    exact in binary floating point, as in the evaluations below (whole and half hours,
    whole amounts); no statement below rests on a value that is not.
\<close>

type_synonym instant = int

record Customer =
  cust_id :: string
  cust_name :: string

record Task =
  tsk_id :: string
  tsk_name :: string

record TimeEntry =
  entry_id :: string
  task_id :: string
  customer_id :: "string option"
  start_time :: "instant option"
  end_time :: "instant option"
  task :: "Task option"
  customer :: "Customer option"
  duration_minutes :: "int option"
  duration :: "int option"
  date :: "int option"
  billable :: bool
  rate :: "rat option"
  created_at :: "instant option"

datatype GroupBy = ByCustomer | ByProject | ByTask | ByDay

record ReportFilters =
  dateFrom :: "int option"
  dateTo :: "int option"
  filter_customer :: string
  filter_project :: string
  groupBy :: GroupBy
  billableOnly :: bool

section \<open>Dates\<close>

definition msPerDay :: int where
  "msPerDay = 86400000"

text \<open>\<^verbatim>\<open>new Date('yyyy-MM-dd')\<close>: a date-only ISO string is midnight UTC of that day.\<close>

definition newDate :: "int \<Rightarrow> instant" where
  "newDate day = day * msPerDay"

text \<open>\<^verbatim>\<open>parseISO('yyyy-MM-dd')\<close> of date-fns: a date-only string is local midnight.\<close>

definition parseISO :: "int \<Rightarrow> int \<Rightarrow> instant" where
  "parseISO tz day = day * msPerDay - tz"

text \<open>The local calendar day (as a day number) an instant falls on.\<close>

definition localDay :: "int \<Rightarrow> instant \<Rightarrow> int" where
  "localDay tz t = (t + tz) div msPerDay"

text \<open>\<^verbatim>\<open>d.setHours(h, m, s, ms)\<close>: the same local day, at the given local time of day.\<close>

definition setHours :: "int \<Rightarrow> int \<Rightarrow> int \<Rightarrow> int \<Rightarrow> int \<Rightarrow> instant \<Rightarrow> instant" where
  "setHours tz h m s ms t =
     localDay tz t * msPerDay - tz + ((h * 60 + m) * 60 + s) * 1000 + ms"

text \<open>
  \<^verbatim>\<open>differenceInSeconds(dateLeft, dateRight)\<close> of date-fns: the difference in
  milliseconds divided by 1000, rounded towards zero.
\<close>

definition differenceInSeconds :: "instant \<Rightarrow> instant \<Rightarrow> int" where
  "differenceInSeconds dateLeft dateRight =
     (let diff = dateLeft - dateRight
      in if 0 \<le> diff then diff div 1000 else - ((- diff) div 1000))"

section \<open>Duration of an entry\<close>

text \<open>
  \<^verbatim>\<open>calculateDuration\<close> of Reports.tsx, in seconds. \<^verbatim>\<open>if (entry.duration_minutes)\<close>
  is a truthiness test: \<^verbatim>\<open>null\<close> and \<open>0\<close> both fail it. The running-entry branch reads
  the wall clock (\<^verbatim>\<open>new Date()\<close>), here the argument \<open>now\<close>.
\<close>

definition calculateDuration :: "instant \<Rightarrow> TimeEntry \<Rightarrow> int" where
  "calculateDuration now entry =
     (case duration_minutes entry of
        Some m \<Rightarrow>
          if m \<noteq> 0 then m * 60
          else (case start_time entry of
                  None \<Rightarrow> 0
                | Some startTime \<Rightarrow>
                    (case end_time entry of
                       Some endTime \<Rightarrow> differenceInSeconds endTime startTime
                     | None \<Rightarrow> differenceInSeconds now startTime))
      | None \<Rightarrow>
          (case start_time entry of
             None \<Rightarrow> 0
           | Some startTime \<Rightarrow>
               (case end_time entry of
                  Some endTime \<Rightarrow> differenceInSeconds endTime startTime
                | None \<Rightarrow> differenceInSeconds now startTime)))"

text \<open>
  The body of the loop of \<^verbatim>\<open>calculateTotalHours\<close> in Dashboard.tsx: the minutes one
  entry adds to \<^verbatim>\<open>totalMinutes\<close>. \<^verbatim>\<open>parseFloat(String(n))\<close> of an integer \<open>n\<close> is
  \<open>n\<close>, never \<^verbatim>\<open>NaN\<close>, so a present \<^verbatim>\<open>duration_minutes\<close> (or, failing that, a
  present legacy \<^verbatim>\<open>duration\<close>) is always taken. Timestamps count in whole minutes and
  only when the difference is positive.
\<close>

definition timestampMinutes :: "TimeEntry \<Rightarrow> int" where
  "timestampMinutes entry =
     (case start_time entry of
        None \<Rightarrow> 0
      | Some start \<Rightarrow>
          (case end_time entry of
             None \<Rightarrow> 0
           | Some end' \<Rightarrow>
               (let diffMs = end' - start;
                    diffMinutes = diffMs div 60000
                in if 0 < diffMinutes then diffMinutes else 0)))"

definition dashboardEntryMinutes :: "TimeEntry \<Rightarrow> int" where
  "dashboardEntryMinutes entry =
     (case duration_minutes entry of
        Some minutes \<Rightarrow> minutes
      | None \<Rightarrow>
          (case duration entry of
             Some minutes \<Rightarrow> minutes
           | None \<Rightarrow> timestampMinutes entry))"

text \<open>The same loop body in TimeEntries.tsx, which has no \<^verbatim>\<open>duration\<close> step.\<close>

definition listEntryMinutes :: "TimeEntry \<Rightarrow> int" where
  "listEntryMinutes entry =
     (case duration_minutes entry of
        Some minutes \<Rightarrow> minutes
      | None \<Rightarrow> timestampMinutes entry)"

text \<open>\<^verbatim>\<open>Math.round\<close>: the nearest integer, a half rounding up.\<close>

definition mathRound :: "rat \<Rightarrow> int" where
  "mathRound x = \<lfloor>x + 1 / 2\<rfloor>"

text \<open>
  \<^verbatim>\<open>calculateTotalHours\<close> of Dashboard.tsx and of TimeEntries.tsx: the minutes of the
  entries summed, as hours with one decimal.
\<close>

definition dashboardTotalHours :: "TimeEntry list \<Rightarrow> rat" where
  "dashboardTotalHours entries =
     (if entries = [] then 0
      else (let totalMinutes = fold (\<lambda>entry total. total + dashboardEntryMinutes entry) entries 0
            in of_int (mathRound (of_int totalMinutes / 60 * 10)) / 10))"

definition listTotalHours :: "TimeEntry list \<Rightarrow> rat" where
  "listTotalHours entries =
     (if entries = [] then 0
      else (let totalMinutes = fold (\<lambda>entry total. total + listEntryMinutes entry) entries 0
            in of_int (mathRound (of_int totalMinutes / 60 * 10)) / 10))"

section \<open>Effective date of an entry\<close>

text \<open>
  Reports.tsx resolves the date of an entry inline, with the same expression in the
  filter, in the day grouping and in the period grouping:
  \<^verbatim>\<open>entry.date ? new Date(entry.date) : entry.start_time ? new Date(entry.start_time) : new Date()\<close>.
  Its last resort is the wall clock, the argument \<open>now\<close>.
\<close>

definition reportEntryDate :: "instant \<Rightarrow> TimeEntry \<Rightarrow> instant" where
  "reportEntryDate now entry =
     (case date entry of
        Some d \<Rightarrow> newDate d
      | None \<Rightarrow> (case start_time entry of Some s \<Rightarrow> s | None \<Rightarrow> now))"

text \<open>
  \<^verbatim>\<open>getEntryDate\<close> of Dashboard.tsx and of TimeEntries.tsx (the two are the same text):
  \<^verbatim>\<open>date\<close>, else \<^verbatim>\<open>start_time\<close>, else \<^verbatim>\<open>created_at\<close>, each through
  \<^verbatim>\<open>parseISO\<close>, and \<^verbatim>\<open>null\<close> when all three are missing. \<^verbatim>\<open>parseISO\<close> does
  not throw on a string (a malformed one gives \<^verbatim>\<open>Invalid Date\<close>), so the
  \<^verbatim>\<open>catch\<close> branch, which returns \<^verbatim>\<open>null\<close> as well, is not entered for a row of
  the store.
\<close>

definition getEntryDate :: "int \<Rightarrow> TimeEntry \<Rightarrow> instant option" where
  "getEntryDate tz entry =
     (case date entry of
        Some d \<Rightarrow> Some (parseISO tz d)
      | None \<Rightarrow>
          (case start_time entry of
             Some s \<Rightarrow> Some s
           | None \<Rightarrow> (case created_at entry of Some c \<Rightarrow> Some c | None \<Rightarrow> None)))"

text \<open>\<^verbatim>\<open>isDateInRange\<close> of Dashboard.tsx and of TimeEntries.tsx.\<close>

definition isDateInRange :: "instant option \<Rightarrow> instant \<Rightarrow> instant option \<Rightarrow> bool" where
  "isDateInRange date' start end' =
     (case date' of
        None \<Rightarrow> False
      | Some d \<Rightarrow>
          (case end' of
             Some e \<Rightarrow> (start < d \<or> d = start) \<and> (d < e \<or> d = e)
           | None \<Rightarrow> start < d \<or> d = start))"

section \<open>The entry filter of the report\<close>

text \<open>
  The callback of \<^verbatim>\<open>filterTimeEntries\<close> in Reports.tsx, check by check in the order
  of the source. An empty filter string is falsy and switches its check off.
\<close>

definition keepEntry :: "int \<Rightarrow> instant \<Rightarrow> ReportFilters \<Rightarrow> TimeEntry \<Rightarrow> bool" where
  "keepEntry tz now filters entry =
     (let entryDate = reportEntryDate now entry
      in if (case dateFrom filters of
               Some f \<Rightarrow> entryDate < setHours tz 0 0 0 0 (newDate f)
             | None \<Rightarrow> False) then False
         else if (case dateTo filters of
                    Some t \<Rightarrow> setHours tz 23 59 59 999 (newDate t) < entryDate
                  | None \<Rightarrow> False) then False
         else if filter_customer filters \<noteq> [] \<and> customer_id entry \<noteq> Some (filter_customer filters)
           then False
         else if filter_project filters \<noteq> [] then False
         else if billableOnly filters \<and> \<not> billable entry then False
         else True)"

definition filterTimeEntries :: "int \<Rightarrow> instant \<Rightarrow> ReportFilters \<Rightarrow> TimeEntry list \<Rightarrow> TimeEntry list" where
  "filterTimeEntries tz now filters entries = filter (keepEntry tz now filters) entries"

section \<open>Calendar and formatting\<close>

text \<open>
  The civil date (year, month 1..12, day of month) of a day number, in the proleptic
  Gregorian calendar that \<^verbatim>\<open>Date\<close> uses, and the day number of a civil date.
\<close>

definition civilFromDays :: "int \<Rightarrow> int \<times> int \<times> int" where
  "civilFromDays day =
     (let z = day + 719468;
          era = z div 146097;
          doe = z - era * 146097;
          yoe = (doe - doe div 1460 + doe div 36524 - doe div 146096) div 365;
          doy = doe - (365 * yoe + yoe div 4 - yoe div 100);
          mp = (5 * doy + 2) div 153;
          d = doy - (153 * mp + 2) div 5 + 1;
          m = (if mp < 10 then mp + 3 else mp - 9);
          y = yoe + era * 400 + (if m \<le> 2 then 1 else 0)
      in (y, m, d))"

definition daysFromCivil :: "int \<Rightarrow> int \<Rightarrow> int \<Rightarrow> int" where
  "daysFromCivil y m d =
     (let y' = (if m \<le> 2 then y - 1 else y);
          era = y' div 400;
          yoe = y' - era * 400;
          doy = (153 * (if 2 < m then m - 3 else m + 9) + 2) div 5 + d - 1;
          doe = yoe * 365 + yoe div 4 - yoe div 100 + doy
      in era * 146097 + doe - 719468)"

definition getFullYear :: "int \<Rightarrow> instant \<Rightarrow> int" where
  "getFullYear tz t = fst (civilFromDays (localDay tz t))"

text \<open>\<^verbatim>\<open>getMonth\<close> counts from 0.\<close>

definition getMonth :: "int \<Rightarrow> instant \<Rightarrow> int" where
  "getMonth tz t = fst (snd (civilFromDays (localDay tz t))) - 1"

definition getDate :: "int \<Rightarrow> instant \<Rightarrow> int" where
  "getDate tz t = snd (snd (civilFromDays (localDay tz t)))"

text \<open>\<^verbatim>\<open>Number.prototype.toString\<close> of a non-negative integer, and of any integer.\<close>

fun decimal :: "nat \<Rightarrow> string" where
  "decimal n =
     (if n < 10 then [''0123456789'' ! n]
      else decimal (n div 10) @ [''0123456789'' ! (n mod 10)])"

declare decimal.simps [simp del]

definition intToString :: "int \<Rightarrow> string" where
  "intToString i = (if i < 0 then CHR ''-'' # decimal (nat (- i)) else decimal (nat i))"

text \<open>\<^verbatim>\<open>addLeadingZeros(number, targetLength)\<close> of date-fns, for a non-negative number.\<close>

definition addLeadingZeros :: "int \<Rightarrow> nat \<Rightarrow> string" where
  "addLeadingZeros n targetLength =
     (let output = decimal (nat n)
      in replicate (targetLength - length output) CHR ''0'' @ output)"

text \<open>
  The format tokens the pages use. \<^verbatim>\<open>yyyy\<close> prints the year of the era: a year
  \<open>y \<le> 0\<close> prints as \<open>1 - y\<close>. \<^verbatim>\<open>MMM\<close> is the abbreviated month of the Danish locale
  that \<^verbatim>\<open>utils/localization.ts\<close> passes to date-fns.
\<close>

definition token_yyyy :: "int \<Rightarrow> instant \<Rightarrow> string" where
  "token_yyyy tz t =
     (let signedYear = getFullYear tz t;
          year = (if 0 < signedYear then signedYear else 1 - signedYear)
      in addLeadingZeros year 4)"

definition token_MM :: "int \<Rightarrow> instant \<Rightarrow> string" where
  "token_MM tz t = addLeadingZeros (getMonth tz t + 1) 2"

definition token_dd :: "int \<Rightarrow> instant \<Rightarrow> string" where
  "token_dd tz t = addLeadingZeros (getDate tz t) 2"

definition danishMonths :: "string list" where
  "danishMonths = [''jan.'', ''feb.'', ''mar.'', ''apr.'', ''maj'', ''jun.'',
                   ''jul.'', ''aug.'', ''sep.'', ''okt.'', ''nov.'', ''dec.'']"

definition token_MMM :: "int \<Rightarrow> instant \<Rightarrow> string" where
  "token_MMM tz t = danishMonths ! nat (getMonth tz t)"

text \<open>\<^verbatim>\<open>format(d, 'yyyy-MM-dd')\<close> and \<^verbatim>\<open>format(d, 'yyyy-MM')\<close>.\<close>

definition format_yyyy_MM_dd :: "int \<Rightarrow> instant \<Rightarrow> string" where
  "format_yyyy_MM_dd tz t = token_yyyy tz t @ ''-'' @ token_MM tz t @ ''-'' @ token_dd tz t"

definition format_yyyy_MM :: "int \<Rightarrow> instant \<Rightarrow> string" where
  "format_yyyy_MM tz t = token_yyyy tz t @ ''-'' @ token_MM tz t"

text \<open>
  \<^verbatim>\<open>formatDate(d, 'dd MMM')\<close>, \<^verbatim>\<open>formatDate(d)\<close> with its default format
  \<^verbatim>\<open>dd/MM-yyyy\<close>, and \<^verbatim>\<open>formatMonthYear(d)\<close>, of \<^verbatim>\<open>utils/localization.ts\<close>.
\<close>

definition formatDate_dd_MMM :: "int \<Rightarrow> instant \<Rightarrow> string" where
  "formatDate_dd_MMM tz t = token_dd tz t @ '' '' @ token_MMM tz t"

definition formatDate :: "int \<Rightarrow> instant \<Rightarrow> string" where
  "formatDate tz t = token_dd tz t @ ''/'' @ token_MM tz t @ ''-'' @ token_yyyy tz t"

definition formatMonthYear :: "int \<Rightarrow> instant \<Rightarrow> string" where
  "formatMonthYear tz t = token_MMM tz t @ '' '' @ token_yyyy tz t"

text \<open>
  \<^verbatim>\<open>parseISO\<close> of a string, for the strings the report feeds back to it: its own keys
  \<^verbatim>\<open>yyyy-MM-dd\<close>. Four digits, two digits, two digits, a month in 1..12 and a day
  that exists give local midnight of that date; anything else (a key of a year beyond
  9999) gives \<^verbatim>\<open>Invalid Date\<close>, here \<open>None\<close>.
\<close>

definition isDigit :: "char \<Rightarrow> bool" where
  "isDigit c = (c \<in> set ''0123456789'')"

definition digitValue :: "char \<Rightarrow> nat" where
  "digitValue c = length (takeWhile (\<lambda>d. d \<noteq> c) ''0123456789'')"

definition numberOfDigits :: "string \<Rightarrow> nat" where
  "numberOfDigits s = foldl (\<lambda>n c. 10 * n + digitValue c) 0 s"

definition parseISOString :: "int \<Rightarrow> string \<Rightarrow> instant option" where
  "parseISOString tz s =
     (if length s = 10 \<and> s ! 4 = CHR ''-'' \<and> s ! 7 = CHR ''-''
         \<and> list_all isDigit (take 4 s) \<and> list_all isDigit (take 2 (drop 5 s))
         \<and> list_all isDigit (drop 8 s)
      then (let y = int (numberOfDigits (take 4 s));
                m = int (numberOfDigits (take 2 (drop 5 s)));
                d = int (numberOfDigits (drop 8 s));
                day = daysFromCivil y m d
            in if 1 \<le> m \<and> m \<le> 12 \<and> 1 \<le> d \<and> civilFromDays day = (y, m, d)
               then Some (parseISO tz day) else None)
      else None)"

text \<open>
  \<^verbatim>\<open>startOfWeek\<close> of \<^verbatim>\<open>utils/localization.ts\<close> (\<^verbatim>\<open>weekStartsOn: 1\<close>): local midnight
  of the Monday on or before the date. Day 0, 1970-01-01, was a Thursday.
\<close>

definition startOfWeek :: "int \<Rightarrow> instant \<Rightarrow> instant" where
  "startOfWeek tz t = (let day = localDay tz t in parseISO tz (day - (day + 3) mod 7))"

section \<open>Objects and sorting\<close>

text \<open>
  The report accumulates its groups in plain objects (\<^verbatim>\<open>Record<string, ...>\<close>) and
  reads them back with \<^verbatim>\<open>Object.entries\<close>. An object is modelled as the list of its
  own properties in creation order. \<^verbatim>\<open>Object.entries\<close> lists the keys that are array
  indices (canonical decimal numerals below \<open>2^32 - 1\<close>) first, in ascending numeric
  order, and the other keys after them in creation order.
\<close>

definition isArrayIndex :: "string \<Rightarrow> bool" where
  "isArrayIndex k =
     (k \<noteq> [] \<and> list_all isDigit k \<and> (if hd k = CHR ''0'' then k = ''0'' else True)
      \<and> numberOfDigits k < 4294967295)"

definition objectEntries :: "(string \<times> 'v) list \<Rightarrow> (string \<times> 'v) list" where
  "objectEntries obj =
     sort_key (\<lambda>p. numberOfDigits (fst p)) (filter (\<lambda>p. isArrayIndex (fst p)) obj)
     @ filter (\<lambda>p. \<not> isArrayIndex (fst p)) obj"

text \<open>
  A key that names a member of \<^verbatim>\<open>Object.prototype\<close> is not absent from a fresh object:
  reading it yields the inherited member, which is truthy.
\<close>

definition objectPrototypeKeys :: "string list" where
  "objectPrototypeKeys =
     [''constructor'', ''__defineGetter__'', ''__defineSetter__'', ''hasOwnProperty'',
      ''__lookupGetter__'', ''__lookupSetter__'', ''isPrototypeOf'', ''propertyIsEnumerable'',
      ''toString'', ''valueOf'', ''__proto__'', ''toLocaleString'']"

text \<open>
  \<^verbatim>\<open>Array.prototype.sort\<close> with a comparator: a stable sort. A comparator result of
  \<^verbatim>\<open>NaN\<close> counts as 0; the comparators below return 0 in its place. The sort is
  written as a stable insertion sort; every stable sort gives the same list when the
  comparator is a consistent ordering.
\<close>

fun insertBy :: "('a \<Rightarrow> 'a \<Rightarrow> rat) \<Rightarrow> 'a \<Rightarrow> 'a list \<Rightarrow> 'a list" where
  "insertBy cmp x [] = [x]"
| "insertBy cmp x (y # ys) = (if cmp x y \<le> 0 then x # y # ys else y # insertBy cmp x ys)"

definition jsSort :: "('a \<Rightarrow> 'a \<Rightarrow> rat) \<Rightarrow> 'a list \<Rightarrow> 'a list" where
  "jsSort cmp xs = foldr (insertBy cmp) xs []"

datatype JsError = RangeError | TypeError

section \<open>The report by dimension\<close>

record Durations =
  d_total :: int
  d_billable :: int
  d_nonBillable :: int

record ReportData =
  rd_name :: string
  rd_value :: rat
  rd_seconds :: int
  rd_billableHours :: rat
  rd_nonBillableHours :: rat

record Report =
  reportData :: "ReportData list"
  totalHours :: rat
  totalBillableHours :: rat
  totalNonBillableHours :: rat

record ReportAcc =
  groupedData :: "(string \<times> Durations) list"
  totalSeconds :: int
  totalBillableSeconds :: int
  totalNonBillableSeconds :: int

text \<open>The \<^verbatim>\<open>switch (filters.groupBy)\<close> of \<^verbatim>\<open>generateReport\<close>.\<close>

definition groupKey :: "int \<Rightarrow> instant \<Rightarrow> ReportFilters \<Rightarrow> TimeEntry \<Rightarrow> string" where
  "groupKey tz now filters entry =
     (case groupBy filters of
        ByCustomer \<Rightarrow>
          (case customer entry of
             None \<Rightarrow> ''Unknown Customer''
           | Some c \<Rightarrow> if cust_name c = [] then ''Unknown Customer'' else cust_name c)
      | ByProject \<Rightarrow> ''Unknown Project''
      | ByTask \<Rightarrow>
          (case task entry of
             None \<Rightarrow> ''Unknown Task''
           | Some t \<Rightarrow> if tsk_name t = [] then ''Unknown Task'' else tsk_name t)
      | ByDay \<Rightarrow> format_yyyy_MM_dd tz (reportEntryDate now entry))"

definition addDuration :: "bool \<Rightarrow> int \<Rightarrow> Durations \<Rightarrow> Durations" where
  "addDuration isBillable s g =
     (if isBillable
      then g\<lparr>d_total := d_total g + s, d_billable := d_billable g + s\<rparr>
      else g\<lparr>d_total := d_total g + s, d_nonBillable := d_nonBillable g + s\<rparr>)"

text \<open>
  \<^verbatim>\<open>if (!groupedData[key]) groupedData[key] = {total: 0, ...}\<close> followed by the
  \<^verbatim>\<open>+=\<close> updates. Under a key of \<^verbatim>\<open>Object.prototype\<close> the updates land on the
  inherited member and the object gains no property.
\<close>

definition accumulate :: "string \<Rightarrow> bool \<Rightarrow> int \<Rightarrow> (string \<times> Durations) list \<Rightarrow> (string \<times> Durations) list" where
  "accumulate key isBillable s obj =
     (if key \<in> set objectPrototypeKeys then obj
      else (case map_of obj key of
              None \<Rightarrow> obj @ [(key, addDuration isBillable s \<lparr>d_total = 0, d_billable = 0, d_nonBillable = 0\<rparr>)]
            | Some g \<Rightarrow> map (\<lambda>p. if fst p = key then (key, addDuration isBillable s (snd p)) else p) obj))"

definition reportStep :: "int \<Rightarrow> instant \<Rightarrow> ReportFilters \<Rightarrow> TimeEntry \<Rightarrow> ReportAcc \<Rightarrow> ReportAcc" where
  "reportStep tz now filters entry acc =
     (let durationInSeconds = calculateDuration now entry;
          key = groupKey tz now filters entry
      in \<lparr>groupedData = accumulate key (billable entry) durationInSeconds (groupedData acc),
          totalSeconds = totalSeconds acc + durationInSeconds,
          totalBillableSeconds =
            (if billable entry then totalBillableSeconds acc + durationInSeconds
             else totalBillableSeconds acc),
          totalNonBillableSeconds =
            (if billable entry then totalNonBillableSeconds acc
             else totalNonBillableSeconds acc + durationInSeconds)\<rparr>)"

text \<open>\<^verbatim>\<open>Math.round(x * 100) / 100\<close>.\<close>

definition round2 :: "rat \<Rightarrow> rat" where
  "round2 x = of_int (mathRound (x * 100)) / 100"

text \<open>
  One element of \<^verbatim>\<open>Object.entries(groupedData).map(...)\<close>. A day key is parsed and
  printed again as \<^verbatim>\<open>dd MMM\<close>; \<^verbatim>\<open>format\<close> throws a \<^verbatim>\<open>RangeError\<close> on an invalid
  date, here \<open>None\<close>.
\<close>

definition reportRow :: "int \<Rightarrow> ReportFilters \<Rightarrow> string \<times> Durations \<Rightarrow> ReportData option" where
  "reportRow tz filters p =
     (let name = fst p; durations = snd p;
          row = (\<lambda>n. \<lparr>rd_name = n,
                       rd_value = round2 (of_int (d_total durations) / 3600),
                       rd_seconds = d_total durations,
                       rd_billableHours = round2 (of_int (d_billable durations) / 3600),
                       rd_nonBillableHours = round2 (of_int (d_nonBillable durations) / 3600)\<rparr>)
      in if groupBy filters = ByDay
         then (case parseISOString tz name of
                 None \<Rightarrow> None
               | Some t \<Rightarrow> Some (row (formatDate_dd_MMM tz t)))
         else Some (row name))"

text \<open>
  The comparator of the day sort, \<^verbatim>\<open>new Date(a.name).getTime() - new Date(b.name).getTime()\<close>.
  The names are by now \<^verbatim>\<open>dd MMM\<close> strings; how \<^verbatim>\<open>new Date\<close> reads such a string
  is left to the host, the argument \<open>dateParse\<close> (\<open>None\<close> for \<^verbatim>\<open>Invalid Date\<close>, whose time
  value is \<^verbatim>\<open>NaN\<close>).
\<close>

definition compareByDate :: "(string \<Rightarrow> instant option) \<Rightarrow> ReportData \<Rightarrow> ReportData \<Rightarrow> rat" where
  "compareByDate dateParse a b =
     (case dateParse (rd_name a) of
        None \<Rightarrow> 0
      | Some dateA \<Rightarrow>
          (case dateParse (rd_name b) of
             None \<Rightarrow> 0
           | Some dateB \<Rightarrow> of_int (dateA - dateB)))"

definition compareBySeconds :: "ReportData \<Rightarrow> ReportData \<Rightarrow> rat" where
  "compareBySeconds a b = of_int (rd_seconds b - rd_seconds a)"

definition generateReport ::
  "(string \<Rightarrow> instant option) \<Rightarrow> int \<Rightarrow> instant \<Rightarrow> ReportFilters \<Rightarrow> TimeEntry list \<Rightarrow> JsError + Report" where
  "generateReport dateParse tz now filters timeEntries =
     (let filteredEntries = filterTimeEntries tz now filters timeEntries;
          acc = fold (reportStep tz now filters) filteredEntries
                  \<lparr>groupedData = [], totalSeconds = 0, totalBillableSeconds = 0,
                   totalNonBillableSeconds = 0\<rparr>
      in (case those (map (reportRow tz filters) (objectEntries (groupedData acc))) of
            None \<Rightarrow> Inl RangeError
          | Some data \<Rightarrow>
              Inr \<lparr>reportData =
                     (if groupBy filters = ByDay then jsSort (compareByDate dateParse) data
                      else jsSort compareBySeconds data),
                   totalHours = round2 (of_int (totalSeconds acc) / 3600),
                   totalBillableHours = round2 (of_int (totalBillableSeconds acc) / 3600),
                   totalNonBillableHours = round2 (of_int (totalNonBillableSeconds acc) / 3600)\<rparr>))"

section \<open>Period summaries\<close>

datatype PeriodView = Week | Month | Quarter

record PeriodSummary =
  ps_period :: string
  ps_totalHours :: rat
  ps_billableHours :: rat
  ps_nonBillableHours :: rat
  ps_billablePercentage :: int

text \<open>The \<^verbatim>\<open>switch (selectedPeriodView)\<close> of \<^verbatim>\<open>generatePeriodSummaries\<close>.\<close>

definition periodKey :: "int \<Rightarrow> PeriodView \<Rightarrow> instant \<Rightarrow> string" where
  "periodKey tz view entryDate =
     (case view of
        Week \<Rightarrow> format_yyyy_MM_dd tz (startOfWeek tz entryDate)
      | Month \<Rightarrow> format_yyyy_MM tz entryDate
      | Quarter \<Rightarrow>
          (let quarter = getMonth tz entryDate div 3 + 1
           in intToString (getFullYear tz entryDate) @ ''-Q'' @ intToString quarter))"

text \<open>
  \<^verbatim>\<open>periodGroups[periodKey].push(entry)\<close>, after creating the list when it is missing.
  Every period key holds a \<^verbatim>\<open>-\<close>, so none is a member of \<^verbatim>\<open>Object.prototype\<close>.
\<close>

definition pushToGroup :: "string \<Rightarrow> TimeEntry \<Rightarrow> (string \<times> TimeEntry list) list \<Rightarrow> (string \<times> TimeEntry list) list" where
  "pushToGroup key entry obj =
     (case map_of obj key of
        None \<Rightarrow> obj @ [(key, [entry])]
      | Some es \<Rightarrow> map (\<lambda>p. if fst p = key then (key, snd p @ [entry]) else p) obj)"

text \<open>The three sums every summary loop keeps, over the entries of one group.\<close>

definition sumSeconds :: "instant \<Rightarrow> TimeEntry list \<Rightarrow> int" where
  "sumSeconds now entries = fold (\<lambda>entry total. total + calculateDuration now entry) entries 0"

definition sumBillableSeconds :: "instant \<Rightarrow> TimeEntry list \<Rightarrow> int" where
  "sumBillableSeconds now entries =
     fold (\<lambda>entry total. if billable entry then total + calculateDuration now entry else total) entries 0"

definition sumNonBillableSeconds :: "instant \<Rightarrow> TimeEntry list \<Rightarrow> int" where
  "sumNonBillableSeconds now entries =
     fold (\<lambda>entry total. if billable entry then total else total + calculateDuration now entry) entries 0"

definition periodLabel :: "int \<Rightarrow> PeriodView \<Rightarrow> string \<Rightarrow> string option" where
  "periodLabel tz view period =
     (case view of
        Week \<Rightarrow> map_option (\<lambda>t. ''Week of '' @ formatDate tz t) (parseISOString tz period)
      | Month \<Rightarrow> map_option (formatMonthYear tz) (parseISOString tz (period @ ''-01''))
      | Quarter \<Rightarrow> Some period)"

definition periodSummary :: "int \<Rightarrow> instant \<Rightarrow> PeriodView \<Rightarrow> string \<times> TimeEntry list \<Rightarrow> PeriodSummary option" where
  "periodSummary tz now view p =
     (let period = fst p; entries = snd p;
          totalHours = of_int (sumSeconds now entries) / 3600;
          billableHours = of_int (sumBillableSeconds now entries) / 3600;
          nonBillableHours = of_int (sumNonBillableSeconds now entries) / 3600
      in map_option
           (\<lambda>label. \<lparr>ps_period = label,
                      ps_totalHours = round2 totalHours,
                      ps_billableHours = round2 billableHours,
                      ps_nonBillableHours = round2 nonBillableHours,
                      ps_billablePercentage =
                        (if 0 < totalHours then mathRound (billableHours / totalHours * 100) else 0)\<rparr>)
           (periodLabel tz view period))"

text \<open>
  \<^verbatim>\<open>generatePeriodSummaries\<close>. The summaries are sorted by their label with
  \<^verbatim>\<open>String.prototype.localeCompare\<close>, the host's collation, the argument \<open>localeCompare\<close>.
\<close>

definition generatePeriodSummaries ::
  "(string \<Rightarrow> string \<Rightarrow> rat) \<Rightarrow> int \<Rightarrow> instant \<Rightarrow> ReportFilters \<Rightarrow> PeriodView \<Rightarrow> TimeEntry list
     \<Rightarrow> JsError + PeriodSummary list" where
  "generatePeriodSummaries localeCompare tz now filters selectedPeriodView timeEntries =
     (let filteredEntries = filterTimeEntries tz now filters timeEntries;
          periodGroups =
            fold (\<lambda>entry. pushToGroup (periodKey tz selectedPeriodView (reportEntryDate now entry)) entry)
              filteredEntries []
      in (case those (map (periodSummary tz now selectedPeriodView) (objectEntries periodGroups)) of
            None \<Rightarrow> Inl RangeError
          | Some summaries \<Rightarrow>
              Inr (jsSort (\<lambda>a b. localeCompare (ps_period a) (ps_period b)) summaries)))"

section \<open>Client summaries\<close>

record ClientSummary =
  clientId :: string
  clientName :: string
  cs_totalHours :: rat
  cs_billableHours :: rat
  cs_nonBillableHours :: rat
  billableAmount :: rat

text \<open>
  The grouping loop of \<^verbatim>\<open>generateClientSummaries\<close>: an entry joins the group of its
  customer record's id when \<^verbatim>\<open>customer && entry.customer_id\<close> holds, and is skipped
  otherwise. A group keeps the customer record of its first entry. Under a key of
  \<^verbatim>\<open>Object.prototype\<close> the inherited member has no \<^verbatim>\<open>entries\<close> array and
  \<^verbatim>\<open>push\<close> throws a \<^verbatim>\<open>TypeError\<close>; customer ids are uuids, so this does not arise
  for stored rows.
\<close>

definition hasCustomer :: "TimeEntry \<Rightarrow> bool" where
  "hasCustomer entry = (customer entry \<noteq> None \<and> customer_id entry \<noteq> None)"

fun groupClients :: "TimeEntry list \<Rightarrow> (string \<times> TimeEntry list \<times> Customer) list
    \<Rightarrow> JsError + (string \<times> TimeEntry list \<times> Customer) list" where
  "groupClients [] clientGroups = Inr clientGroups"
| "groupClients (entry # rest) clientGroups =
     (case customer entry of
        None \<Rightarrow> groupClients rest clientGroups
      | Some c \<Rightarrow>
          if customer_id entry = None then groupClients rest clientGroups
          else if cust_id c \<in> set objectPrototypeKeys then Inl TypeError
          else (case map_of clientGroups (cust_id c) of
                  None \<Rightarrow> groupClients rest (clientGroups @ [(cust_id c, [entry], c)])
                | Some g \<Rightarrow>
                    groupClients rest
                      (map (\<lambda>p. if fst p = cust_id c then (fst p, fst (snd p) @ [entry], snd (snd p)) else p)
                         clientGroups)))"

text \<open>
  \<^verbatim>\<open>billableAmount\<close> of one group: a billable entry whose rate is truthy and positive
  adds its hours times its own rate.
\<close>

definition sumBillableAmount :: "instant \<Rightarrow> TimeEntry list \<Rightarrow> rat" where
  "sumBillableAmount now entries =
     fold (\<lambda>entry amount.
             if billable entry
             then (case rate entry of
                     None \<Rightarrow> amount
                   | Some r \<Rightarrow>
                       if r \<noteq> 0 \<and> 0 < r
                       then (let hours = of_int (calculateDuration now entry) / 3600 in amount + hours * r)
                       else amount)
             else amount) entries 0"

definition clientSummary :: "instant \<Rightarrow> string \<times> TimeEntry list \<times> Customer \<Rightarrow> ClientSummary" where
  "clientSummary now p =
     (let entries = fst (snd p); customer = snd (snd p);
          totalHours = of_int (sumSeconds now entries) / 3600;
          billableHours = of_int (sumBillableSeconds now entries) / 3600;
          nonBillableHours = of_int (sumNonBillableSeconds now entries) / 3600
      in \<lparr>clientId = fst p,
          clientName = cust_name customer,
          cs_totalHours = round2 totalHours,
          cs_billableHours = round2 billableHours,
          cs_nonBillableHours = round2 nonBillableHours,
          billableAmount = round2 (sumBillableAmount now entries)\<rparr>)"

definition generateClientSummaries :: "instant \<Rightarrow> TimeEntry list \<Rightarrow> JsError + ClientSummary list" where
  "generateClientSummaries now timeEntries =
     (case groupClients timeEntries [] of
        Inl e \<Rightarrow> Inl e
      | Inr clientGroups \<Rightarrow>
          (let summaries = map (clientSummary now) (objectEntries clientGroups);
               nonZeroSummaries = filter (\<lambda>summary. 0 < cs_totalHours summary) summaries
           in Inr (jsSort (\<lambda>a b. cs_totalHours b - cs_totalHours a) nonZeroSummaries)))"

section \<open>Notions used to state the properties\<close>

text \<open>
  The definitions of this section follow the words of the specification, not the code:
  the entries of one client, the rows the fetch can return, and the entries whose
  resolution does not read the wall clock.
\<close>

text \<open>
  The entries of the client \<open>cid\<close>: those with a customer reference and a joined
  customer record of that id.
\<close>

definition clientEntries :: "string \<Rightarrow> TimeEntry list \<Rightarrow> TimeEntry list" where
  "clientEntries cid entries =
     filter (\<lambda>entry. case customer entry of
                        None \<Rightarrow> False
                      | Some c \<Rightarrow> customer_id entry \<noteq> None \<and> cust_id c = cid) entries"

text \<open>
  An entry is settled when it carries a date of its own (\<^verbatim>\<open>date\<close> or
  \<^verbatim>\<open>start_time\<close>) and is not running (a start with neither an end nor a non-zero
  \<^verbatim>\<open>duration_minutes\<close>).
\<close>

definition settled :: "TimeEntry \<Rightarrow> bool" where
  "settled entry =
     (case start_time entry of
        None \<Rightarrow> date entry \<noteq> None
      | Some s \<Rightarrow>
          (case end_time entry of
             Some t \<Rightarrow> True
           | None \<Rightarrow> (case duration_minutes entry of None \<Rightarrow> False | Some m \<Rightarrow> m \<noteq> 0)))"

text \<open>
  A row as the fetch returns it. \<^verbatim>\<open>customer\<close> is the embedded resource
  \<^verbatim>\<open>customer:customers(id, name)\<close>, reached through the foreign key
  \<^verbatim>\<open>time_entries.customer_id\<close>: a row carries a customer record only when it carries
  the reference.
\<close>

definition fetched :: "TimeEntry \<Rightarrow> bool" where
  "fetched entry = (case customer entry of None \<Rightarrow> True | Some c \<Rightarrow> customer_id entry \<noteq> None)"

text \<open>The entries a client object holds under a key, none when the key is missing.\<close>

definition groupEntries :: "(string \<times> TimeEntry list \<times> Customer) list \<Rightarrow> string \<Rightarrow> TimeEntry list" where
  "groupEntries obj k = (case map_of obj k of None \<Rightarrow> [] | Some p \<Rightarrow> fst p)"

section \<open>Properties of the duration resolvers\<close>

text \<open>
  Claim C1: the three sites resolve an entry to the same number of seconds at the same
  instant. For a running entry, started at 09:00 with no end and no duration, and a
  clock at 10:00, \<^verbatim>\<open>calculateDuration\<close> of the report takes the running branch of the
  precedence and counts 3600 seconds, one hour in the report. The loops of
  \<^verbatim>\<open>calculateTotalHours\<close> in the dashboard and in the entry list have no such branch:
  the entry adds no minute, and the highlight shows 0 hours.
\<close>

theorem running_entry_counts_differ:
  "calculateDuration 1704103200000
     \<lparr>entry_id = ''e1'', task_id = ''t1'', customer_id = None,
      start_time = Some 1704099600000, end_time = None,
      task = None, customer = None,
      duration_minutes = None, duration = None, date = None,
      billable = True, rate = None, created_at = Some 1704099600000\<rparr> = 3600
   \<and> dashboardEntryMinutes
     \<lparr>entry_id = ''e1'', task_id = ''t1'', customer_id = None,
      start_time = Some 1704099600000, end_time = None,
      task = None, customer = None,
      duration_minutes = None, duration = None, date = None,
      billable = True, rate = None, created_at = Some 1704099600000\<rparr> = 0
   \<and> listEntryMinutes
     \<lparr>entry_id = ''e1'', task_id = ''t1'', customer_id = None,
      start_time = Some 1704099600000, end_time = None,
      task = None, customer = None,
      duration_minutes = None, duration = None, date = None,
      billable = True, rate = None, created_at = Some 1704099600000\<rparr> = 0
   \<and> dashboardTotalHours
     [\<lparr>entry_id = ''e1'', task_id = ''t1'', customer_id = None,
       start_time = Some 1704099600000, end_time = None,
       task = None, customer = None,
       duration_minutes = None, duration = None, date = None,
       billable = True, rate = None, created_at = Some 1704099600000\<rparr>] = 0
   \<and> listTotalHours
     [\<lparr>entry_id = ''e1'', task_id = ''t1'', customer_id = None,
       start_time = Some 1704099600000, end_time = None,
       task = None, customer = None,
       duration_minutes = None, duration = None, date = None,
       billable = True, rate = None, created_at = Some 1704099600000\<rparr>] = 0
   \<and> generateReport (\<lambda>s. None) 0 1704103200000
     \<lparr>dateFrom = None, dateTo = None, filter_customer = [],
      filter_project = [], groupBy = ByCustomer, billableOnly = False\<rparr>
     [\<lparr>entry_id = ''e1'', task_id = ''t1'', customer_id = None,
       start_time = Some 1704099600000, end_time = None,
       task = None, customer = None,
       duration_minutes = None, duration = None, date = None,
       billable = True, rate = None, created_at = Some 1704099600000\<rparr>]
     = Inr \<lparr>reportData =
              [\<lparr>rd_name = ''Unknown Customer'', rd_value = 1, rd_seconds = 3600,
                rd_billableHours = 1, rd_nonBillableHours = 0\<rparr>],
            totalHours = 1, totalBillableHours = 1, totalNonBillableHours = 0\<rparr>"
  by code_simp

text \<open>
  Claim C3: a duration computed from timestamps whose end precedes the start is
  clamped to 0. The dashboard loop does so (\<^verbatim>\<open>if (diffMinutes > 0)\<close>);
  \<^verbatim>\<open>calculateDuration\<close> does not. For an entry that starts at 10:00 and ends at 09:00
  of the same day it returns -3600, and the report shows -1 hour.
\<close>

theorem report_duration_not_clamped:
  "calculateDuration 1704110400000
     \<lparr>entry_id = ''e1'', task_id = ''t1'', customer_id = None,
      start_time = Some 1704103200000, end_time = Some 1704099600000,
      task = None, customer = None,
      duration_minutes = None, duration = None, date = None,
      billable = True, rate = None, created_at = Some 1704103200000\<rparr> = - 3600
   \<and> dashboardEntryMinutes
     \<lparr>entry_id = ''e1'', task_id = ''t1'', customer_id = None,
      start_time = Some 1704103200000, end_time = Some 1704099600000,
      task = None, customer = None,
      duration_minutes = None, duration = None, date = None,
      billable = True, rate = None, created_at = Some 1704103200000\<rparr> = 0
   \<and> generateReport (\<lambda>s. None) 0 1704110400000
     \<lparr>dateFrom = None, dateTo = None, filter_customer = [],
      filter_project = [], groupBy = ByCustomer, billableOnly = False\<rparr>
     [\<lparr>entry_id = ''e1'', task_id = ''t1'', customer_id = None,
       start_time = Some 1704103200000, end_time = Some 1704099600000,
       task = None, customer = None,
       duration_minutes = None, duration = None, date = None,
       billable = True, rate = None, created_at = Some 1704103200000\<rparr>]
     = Inr \<lparr>reportData =
              [\<lparr>rd_name = ''Unknown Customer'', rd_value = - 1, rd_seconds = - 3600,
                rd_billableHours = - 1, rd_nonBillableHours = 0\<rparr>],
            totalHours = - 1, totalBillableHours = - 1, totalNonBillableHours = 0\<rparr>"
  by code_simp

text \<open>
  Claim C5: a present, non-negative \<^verbatim>\<open>duration_minutes\<close> decides the duration,
  whatever the timestamps. \<^verbatim>\<open>calculateDuration\<close> tests the field for truthiness, so
  a \<^verbatim>\<open>duration_minutes\<close> of 0 counts as absent: with timestamps an hour apart the
  entry resolves to 3600 seconds, not to 0. The highlight loops test for \<^verbatim>\<open>null\<close>
  and resolve the same entry to 0 minutes.
\<close>

theorem zero_minutes_fall_through:
  "calculateDuration 1704110400000
     \<lparr>entry_id = ''e1'', task_id = ''t1'', customer_id = None,
      start_time = Some 1704099600000, end_time = Some 1704103200000,
      task = None, customer = None,
      duration_minutes = Some 0, duration = None, date = Some 19723,
      billable = True, rate = None, created_at = Some 1704103200000\<rparr> = 3600
   \<and> dashboardEntryMinutes
     \<lparr>entry_id = ''e1'', task_id = ''t1'', customer_id = None,
      start_time = Some 1704099600000, end_time = Some 1704103200000,
      task = None, customer = None,
      duration_minutes = Some 0, duration = None, date = Some 19723,
      billable = True, rate = None, created_at = Some 1704103200000\<rparr> = 0
   \<and> listEntryMinutes
     \<lparr>entry_id = ''e1'', task_id = ''t1'', customer_id = None,
      start_time = Some 1704099600000, end_time = Some 1704103200000,
      task = None, customer = None,
      duration_minutes = Some 0, duration = None, date = Some 19723,
      billable = True, rate = None, created_at = Some 1704103200000\<rparr> = 0"
  by code_simp

section \<open>Properties of the effective date\<close>

lemma localDay_newDate: "0 \<le> tz \<Longrightarrow> tz < msPerDay \<Longrightarrow> localDay tz (newDate d) = d"
  by (simp add: localDay_def newDate_def msPerDay_def)

text \<open>
  Claim C2: every site resolves the effective date as \<^verbatim>\<open>date\<close>, else
  \<^verbatim>\<open>start_time\<close>, else \<^verbatim>\<open>created_at\<close>. Take a stored entry with neither
  \<^verbatim>\<open>date\<close> nor \<^verbatim>\<open>start_time\<close>, created on 2023-12-01 at 12:00 UTC.
  \<^verbatim>\<open>getEntryDate\<close> of the dashboard and of the entry list dates it at its creation.
  The report ends its chain in \<^verbatim>\<open>new Date()\<close> and dates it at the wall clock: under
  the fixed range 2024-01-01 to 2024-01-07 the filter keeps the entry in a report drawn
  on 2024-01-01 and drops it from one drawn on 2024-02-01, and the day grouping files it
  under the day of the run.
\<close>

theorem report_date_falls_back_to_clock:
  "getEntryDate 0
     \<lparr>entry_id = ''e1'', task_id = ''t1'', customer_id = None,
      start_time = None, end_time = None,
      task = None, customer = None,
      duration_minutes = Some 60, duration = None, date = None,
      billable = True, rate = None, created_at = Some 1701432000000\<rparr> = Some 1701432000000
   \<and> reportEntryDate 1704110400000
     \<lparr>entry_id = ''e1'', task_id = ''t1'', customer_id = None,
      start_time = None, end_time = None,
      task = None, customer = None,
      duration_minutes = Some 60, duration = None, date = None,
      billable = True, rate = None, created_at = Some 1701432000000\<rparr> = 1704110400000
   \<and> reportEntryDate 1706788800000
     \<lparr>entry_id = ''e1'', task_id = ''t1'', customer_id = None,
      start_time = None, end_time = None,
      task = None, customer = None,
      duration_minutes = Some 60, duration = None, date = None,
      billable = True, rate = None, created_at = Some 1701432000000\<rparr> = 1706788800000
   \<and> keepEntry 0 1704110400000
     \<lparr>dateFrom = Some 19723, dateTo = Some 19729, filter_customer = [],
      filter_project = [], groupBy = ByCustomer, billableOnly = False\<rparr>
     \<lparr>entry_id = ''e1'', task_id = ''t1'', customer_id = None,
      start_time = None, end_time = None,
      task = None, customer = None,
      duration_minutes = Some 60, duration = None, date = None,
      billable = True, rate = None, created_at = Some 1701432000000\<rparr>
   \<and> \<not> keepEntry 0 1706788800000
     \<lparr>dateFrom = Some 19723, dateTo = Some 19729, filter_customer = [],
      filter_project = [], groupBy = ByCustomer, billableOnly = False\<rparr>
     \<lparr>entry_id = ''e1'', task_id = ''t1'', customer_id = None,
      start_time = None, end_time = None,
      task = None, customer = None,
      duration_minutes = Some 60, duration = None, date = None,
      billable = True, rate = None, created_at = Some 1701432000000\<rparr>
   \<and> groupKey 0 1704110400000
     \<lparr>dateFrom = None, dateTo = None, filter_customer = [],
      filter_project = [], groupBy = ByDay, billableOnly = False\<rparr>
     \<lparr>entry_id = ''e1'', task_id = ''t1'', customer_id = None,
      start_time = None, end_time = None,
      task = None, customer = None,
      duration_minutes = Some 60, duration = None, date = None,
      billable = True, rate = None, created_at = Some 1701432000000\<rparr> = ''2024-01-01''"
  by code_simp

section \<open>Properties of the entry filter\<close>

lemma mathRound_zero: "mathRound 0 = 0"
  unfolding mathRound_def by (simp add: floor_eq_iff)

lemma round2_zero: "round2 0 = 0"
  by (simp add: round2_def mathRound_zero)

lemma keepEntry_dates_only:
  assumes "filter_customer filters = []" "filter_project filters = []" "\<not> billableOnly filters"
  shows "keepEntry tz now filters e =
     ((case dateFrom filters of None \<Rightarrow> True
        | Some f \<Rightarrow> setHours tz 0 0 0 0 (newDate f) \<le> reportEntryDate now e)
      \<and> (case dateTo filters of None \<Rightarrow> True
        | Some t \<Rightarrow> reportEntryDate now e \<le> setHours tz 23 59 59 999 (newDate t)))"
  using assms by (auto simp add: keepEntry_def Let_def split: option.splits)

lemma setHours_start: "setHours tz 0 0 0 0 t = localDay tz t * msPerDay - tz"
  by (simp add: setHours_def)

lemma setHours_end: "setHours tz 23 59 59 999 t = localDay tz t * msPerDay - tz + 86399999"
  by (simp add: setHours_def)

lemma same_day_bounds:
  "localDay tz t * msPerDay - tz \<le> t \<and> t \<le> localDay tz t * msPerDay - tz + 86399999"
proof -
  have e: "(t + tz) div 86400000 * 86400000 + (t + tz) mod 86400000 = t + tz"
    by (rule div_mult_mod_eq)
  have l: "0 \<le> (t + tz) mod 86400000" by simp
  have u: "(t + tz) mod 86400000 < 86400000" by simp
  from e l u show ?thesis unfolding localDay_def msPerDay_def by linarith
qed

lemma localDay_mono: "t \<le> u \<Longrightarrow> localDay tz t \<le> localDay tz u"
  by (simp add: localDay_def msPerDay_def zdiv_mono1)

lemma start_of_day_newDate:
  "setHours tz 0 0 0 0 (newDate f) = f * 86400000 - tz mod 86400000"
proof -
  have "(f * 86400000 + tz) div 86400000 = f + tz div 86400000" by simp
  moreover have "tz div 86400000 * 86400000 + tz mod 86400000 = tz" by (rule div_mult_mod_eq)
  ultimately show ?thesis
    by (simp add: setHours_start localDay_def newDate_def msPerDay_def algebra_simps)
qed

lemma dated_lower_bound:
  "(setHours tz 0 0 0 0 (newDate f) \<le> newDate x) = (f \<le> x)"
proof -
  have l: "0 \<le> tz mod 86400000" by simp
  have u: "tz mod 86400000 < 86400000" by simp
  have "(f * 86400000 - tz mod 86400000 \<le> x * 86400000) = (f \<le> x)"
    using l u by (cases "f \<le> x") linarith+
  then show ?thesis
    by (simp add: start_of_day_newDate) (simp add: newDate_def msPerDay_def)
qed

lemma dated_upper_bound:
  "(newDate x \<le> setHours tz 23 59 59 999 (newDate t)) = (x \<le> t)"
proof -
  have l: "0 \<le> tz mod 86400000" by simp
  have u: "tz mod 86400000 < 86400000" by simp
  have e: "setHours tz 23 59 59 999 (newDate t) = t * 86400000 - tz mod 86400000 + 86399999"
    using start_of_day_newDate[of tz t] by (simp add: setHours_start setHours_end)
  have "(x * 86400000 \<le> t * 86400000 - tz mod 86400000 + 86399999) = (x \<le> t)"
    using l u by (cases "x \<le> t") linarith+
  then show ?thesis
    by (simp add: e) (simp add: newDate_def msPerDay_def)
qed

text \<open>
  What holds of the range in every time zone. With the other predicates of the filter
  switched off and a range \<open>from \<le> to\<close>: an entry whose effective date is the
  normalised \<open>from\<close> bound (start of day) or the normalised \<open>to\<close> bound (23:59:59.999)
  is kept; so is every entry whose effective date falls on the local day of the parsed
  \<open>to\<close> bound, which is the \<open>to\<close> date itself where local time is not behind UTC; an
  entry dated by its \<^verbatim>\<open>date\<close> column is kept exactly when \<open>from \<le> date \<le> to\<close>;
  without a \<open>to\<close> bound the range is open to the future. The dashboard's
  \<^verbatim>\<open>isDateInRange\<close> is inclusive at both ends, and open-ended without an end.
\<close>

lemma date_range_inclusive:
  "(filter_customer filters = [] \<and> filter_project filters = [] \<and> \<not> billableOnly filters
      \<and> dateFrom filters = Some f \<and> dateTo filters = Some t \<and> f \<le> t \<longrightarrow>
        (reportEntryDate now e = setHours tz 0 0 0 0 (newDate f) \<longrightarrow> keepEntry tz now filters e)
      \<and> (reportEntryDate now e = setHours tz 23 59 59 999 (newDate t) \<longrightarrow> keepEntry tz now filters e)
      \<and> (localDay tz (reportEntryDate now e) = localDay tz (newDate t) \<longrightarrow> keepEntry tz now filters e)
      \<and> (0 \<le> tz \<and> tz < msPerDay \<and> localDay tz (reportEntryDate now e) = t \<longrightarrow> keepEntry tz now filters e)
      \<and> (date e = Some x \<longrightarrow> keepEntry tz now filters e = (f \<le> x \<and> x \<le> t)))
   \<and> (filter_customer filters = [] \<and> filter_project filters = [] \<and> \<not> billableOnly filters
      \<and> dateFrom filters = Some f \<and> dateTo filters = None \<longrightarrow>
        keepEntry tz now filters e = (setHours tz 0 0 0 0 (newDate f) \<le> reportEntryDate now e)
        \<and> (date e = Some x \<longrightarrow> keepEntry tz now filters e = (f \<le> x)))
   \<and> (start \<le> end' \<longrightarrow>
        isDateInRange (Some start) start (Some end') \<and> isDateInRange (Some end') start (Some end'))
   \<and> isDateInRange (Some d) start (Some end') = (start \<le> d \<and> d \<le> end')
   \<and> isDateInRange (Some d) start None = (start \<le> d)"
proof -
  have p1: "filter_customer filters = [] \<and> filter_project filters = [] \<and> \<not> billableOnly filters
      \<and> dateFrom filters = Some f \<and> dateTo filters = Some t \<and> f \<le> t \<longrightarrow>
        (reportEntryDate now e = setHours tz 0 0 0 0 (newDate f) \<longrightarrow> keepEntry tz now filters e)
      \<and> (reportEntryDate now e = setHours tz 23 59 59 999 (newDate t) \<longrightarrow> keepEntry tz now filters e)
      \<and> (localDay tz (reportEntryDate now e) = localDay tz (newDate t) \<longrightarrow> keepEntry tz now filters e)
      \<and> (0 \<le> tz \<and> tz < msPerDay \<and> localDay tz (reportEntryDate now e) = t \<longrightarrow> keepEntry tz now filters e)
      \<and> (date e = Some x \<longrightarrow> keepEntry tz now filters e = (f \<le> x \<and> x \<le> t))"
  proof (intro impI, elim conjE)
    assume h: "filter_customer filters = []" "filter_project filters = []" "\<not> billableOnly filters"
      "dateFrom filters = Some f" "dateTo filters = Some t" "f \<le> t"
    have k: "keepEntry tz now filters e =
        (setHours tz 0 0 0 0 (newDate f) \<le> reportEntryDate now e
         \<and> reportEntryDate now e \<le> setHours tz 23 59 59 999 (newDate t))"
      using keepEntry_dates_only[OF h(1,2,3)] h(4,5) by simp
    have ft: "newDate f \<le> newDate t"
      using h(6) by (simp add: newDate_def msPerDay_def)
    have days: "localDay tz (newDate f) * msPerDay \<le> localDay tz (newDate t) * msPerDay"
      using localDay_mono[OF ft] by (simp add: msPerDay_def)
    have lo: "setHours tz 0 0 0 0 (newDate f) \<le> setHours tz 0 0 0 0 (newDate t)"
      using days by (simp add: setHours_start)
    have span: "setHours tz 0 0 0 0 (newDate t) \<le> setHours tz 23 59 59 999 (newDate t)"
      by (simp add: setHours_start setHours_end)
    have c1: "reportEntryDate now e = setHours tz 0 0 0 0 (newDate f) \<longrightarrow> keepEntry tz now filters e"
      using k lo span by simp
    have c2: "reportEntryDate now e = setHours tz 23 59 59 999 (newDate t) \<longrightarrow> keepEntry tz now filters e"
      using k lo span by simp
    have c3: "localDay tz (reportEntryDate now e) = localDay tz (newDate t) \<longrightarrow> keepEntry tz now filters e"
    proof
      assume same: "localDay tz (reportEntryDate now e) = localDay tz (newDate t)"
      have b: "setHours tz 0 0 0 0 (newDate t) \<le> reportEntryDate now e
           \<and> reportEntryDate now e \<le> setHours tz 23 59 59 999 (newDate t)"
        using same_day_bounds[of tz "reportEntryDate now e"] same
        by (simp add: setHours_start setHours_end)
      show "keepEntry tz now filters e" using k lo b by simp
    qed
    have c3': "0 \<le> tz \<and> tz < msPerDay \<and> localDay tz (reportEntryDate now e) = t \<longrightarrow> keepEntry tz now filters e"
      using c3 by (simp add: localDay_newDate)
    have c4: "date e = Some x \<longrightarrow> keepEntry tz now filters e = (f \<le> x \<and> x \<le> t)"
    proof
      assume dx: "date e = Some x"
      have r: "reportEntryDate now e = newDate x"
        using dx by (simp add: reportEntryDate_def)
      show "keepEntry tz now filters e = (f \<le> x \<and> x \<le> t)"
        unfolding k r by (simp only: dated_lower_bound dated_upper_bound)
    qed
    from c1 c2 c3 c3' c4
    show "(reportEntryDate now e = setHours tz 0 0 0 0 (newDate f) \<longrightarrow> keepEntry tz now filters e)
      \<and> (reportEntryDate now e = setHours tz 23 59 59 999 (newDate t) \<longrightarrow> keepEntry tz now filters e)
      \<and> (localDay tz (reportEntryDate now e) = localDay tz (newDate t) \<longrightarrow> keepEntry tz now filters e)
      \<and> (0 \<le> tz \<and> tz < msPerDay \<and> localDay tz (reportEntryDate now e) = t \<longrightarrow> keepEntry tz now filters e)
      \<and> (date e = Some x \<longrightarrow> keepEntry tz now filters e = (f \<le> x \<and> x \<le> t))"
      by simp
  qed
  have p2: "filter_customer filters = [] \<and> filter_project filters = [] \<and> \<not> billableOnly filters
      \<and> dateFrom filters = Some f \<and> dateTo filters = None \<longrightarrow>
        keepEntry tz now filters e = (setHours tz 0 0 0 0 (newDate f) \<le> reportEntryDate now e)
        \<and> (date e = Some x \<longrightarrow> keepEntry tz now filters e = (f \<le> x))"
  proof (intro impI, elim conjE)
    assume h: "filter_customer filters = []" "filter_project filters = []" "\<not> billableOnly filters"
      "dateFrom filters = Some f" "dateTo filters = None"
    have k: "keepEntry tz now filters e = (setHours tz 0 0 0 0 (newDate f) \<le> reportEntryDate now e)"
      using keepEntry_dates_only[OF h(1,2,3)] h(4,5) by simp
    have c: "date e = Some x \<longrightarrow> keepEntry tz now filters e = (f \<le> x)"
    proof
      assume dx: "date e = Some x"
      have r: "reportEntryDate now e = newDate x"
        using dx by (simp add: reportEntryDate_def)
      show "keepEntry tz now filters e = (f \<le> x)"
        unfolding k r by (simp only: dated_lower_bound)
    qed
    from k c show "keepEntry tz now filters e = (setHours tz 0 0 0 0 (newDate f) \<le> reportEntryDate now e)
        \<and> (date e = Some x \<longrightarrow> keepEntry tz now filters e = (f \<le> x))"
      by simp
  qed
  have p3: "start \<le> end' \<longrightarrow>
        isDateInRange (Some start) start (Some end') \<and> isDateInRange (Some end') start (Some end')"
    by (auto simp add: isDateInRange_def)
  have p4: "isDateInRange (Some d) start (Some end') = (start \<le> d \<and> d \<le> end')"
    by (auto simp add: isDateInRange_def)
  have p5: "isDateInRange (Some d) start None = (start \<le> d)"
    by (auto simp add: isDateInRange_def)
  from p1 p2 p3 p4 p5 show ?thesis by blast
qed

text \<open>
  Claim C6: the range is inclusive at both ends, and a \<open>to\<close> date includes its entire
  day. The filter reads its bounds with \<^verbatim>\<open>new Date('yyyy-MM-dd')\<close>, midnight UTC, and
  then sets the local time of day; in a time zone behind UTC that instant lies on the
  previous local day, and both bounds move a day back for entries dated by a timestamp.
  At UTC-5, with the range 2024-01-08 to 2024-01-14: an entry that starts at 10:00 local
  time on 2024-01-14, the \<open>to\<close> date, is rejected, and one that starts at 10:00 local
  time on 2024-01-07, the day before \<open>from\<close>, is kept. An entry dated by its
  \<^verbatim>\<open>date\<close> column on 2024-01-14 is kept, as the claim says.
\<close>

theorem range_shifted_behind_utc:
  "localDay (-18000000) 1705244400000 = 19736
   \<and> \<not> keepEntry (-18000000) 1704110400000
     \<lparr>dateFrom = Some 19730, dateTo = Some 19736, filter_customer = [],
      filter_project = [], groupBy = ByCustomer, billableOnly = False\<rparr>
     \<lparr>entry_id = ''e1'', task_id = ''t1'', customer_id = None,
      start_time = Some 1705244400000, end_time = Some 1705248000000,
      task = None, customer = None,
      duration_minutes = None, duration = None, date = None,
      billable = True, rate = None, created_at = Some 1705244400000\<rparr>
   \<and> localDay (-18000000) 1704639600000 = 19729
   \<and> keepEntry (-18000000) 1704110400000
     \<lparr>dateFrom = Some 19730, dateTo = Some 19736, filter_customer = [],
      filter_project = [], groupBy = ByCustomer, billableOnly = False\<rparr>
     \<lparr>entry_id = ''e2'', task_id = ''t1'', customer_id = None,
      start_time = Some 1704639600000, end_time = Some 1704643200000,
      task = None, customer = None,
      duration_minutes = None, duration = None, date = None,
      billable = True, rate = None, created_at = Some 1704639600000\<rparr>
   \<and> keepEntry (-18000000) 1704110400000
     \<lparr>dateFrom = Some 19730, dateTo = Some 19736, filter_customer = [],
      filter_project = [], groupBy = ByCustomer, billableOnly = False\<rparr>
     \<lparr>entry_id = ''e3'', task_id = ''t1'', customer_id = None,
      start_time = None, end_time = None,
      task = None, customer = None,
      duration_minutes = Some 60, duration = None, date = Some 19736,
      billable = True, rate = None, created_at = Some 1705244400000\<rparr>
   \<and> setHours (-18000000) 23 59 59 999 (newDate 19736) = 1705208399999"
  by code_simp

text \<open>
  Claim C9: under a non-empty project filter the entry filter rejects every entry, so the
  report has no rows (and the period summaries are empty).
\<close>

theorem project_filter_rejects_all:
  assumes "filter_project filters \<noteq> []"
  shows "filterTimeEntries tz now filters entries = []
    \<and> generateReport dateParse tz now filters entries =
           Inr \<lparr>reportData = [], totalHours = 0, totalBillableHours = 0, totalNonBillableHours = 0\<rparr>
    \<and> generatePeriodSummaries localeCompare tz now filters view entries = Inr []"
proof -
  have k: "\<And>e. \<not> keepEntry tz now filters e"
    using assms by (simp add: keepEntry_def Let_def)
  have f: "filterTimeEntries tz now filters entries = []"
    by (simp add: filterTimeEntries_def k)
  have r: "generateReport dateParse tz now filters entries =
           Inr \<lparr>reportData = [], totalHours = 0, totalBillableHours = 0, totalNonBillableHours = 0\<rparr>"
    by (simp add: generateReport_def f objectEntries_def jsSort_def round2_zero)
  have p: "generatePeriodSummaries localeCompare tz now filters view entries = Inr []"
    by (simp add: generatePeriodSummaries_def f objectEntries_def jsSort_def)
  from f r p show ?thesis by simp
qed

theorem project_filter_rejects_all_witness:
  "filterTimeEntries 3600000 1704110400000
     \<lparr>dateFrom = None, dateTo = None, filter_customer = [],
      filter_project = ''p1'', groupBy = ByCustomer, billableOnly = False\<rparr>
     [\<lparr>entry_id = ''e1'', task_id = ''t1'', customer_id = Some ''c1'',
       start_time = None, end_time = None,
       task = None, customer = Some \<lparr>cust_id = ''c1'', cust_name = ''Acme''\<rparr>,
       duration_minutes = Some 90, duration = None, date = Some 19723,
       billable = True, rate = None, created_at = Some 1704103200000\<rparr>] = []
   \<and> generateReport (\<lambda>s. None) 3600000 1704110400000
     \<lparr>dateFrom = None, dateTo = None, filter_customer = [],
      filter_project = ''p1'', groupBy = ByCustomer, billableOnly = False\<rparr>
     [\<lparr>entry_id = ''e1'', task_id = ''t1'', customer_id = Some ''c1'',
       start_time = None, end_time = None,
       task = None, customer = Some \<lparr>cust_id = ''c1'', cust_name = ''Acme''\<rparr>,
       duration_minutes = Some 90, duration = None, date = Some 19723,
       billable = True, rate = None, created_at = Some 1704103200000\<rparr>]
     = Inr \<lparr>reportData = [], totalHours = 0, totalBillableHours = 0, totalNonBillableHours = 0\<rparr>
   \<and> generatePeriodSummaries (\<lambda>a b. 0) 3600000 1704110400000
     \<lparr>dateFrom = None, dateTo = None, filter_customer = [],
      filter_project = ''p1'', groupBy = ByCustomer, billableOnly = False\<rparr> Week
     [\<lparr>entry_id = ''e1'', task_id = ''t1'', customer_id = Some ''c1'',
       start_time = None, end_time = None,
       task = None, customer = Some \<lparr>cust_id = ''c1'', cust_name = ''Acme''\<rparr>,
       duration_minutes = Some 90, duration = None, date = Some 19723,
       billable = True, rate = None, created_at = Some 1704103200000\<rparr>] = Inr []"
  using project_filter_rejects_all
    [of "\<lparr>dateFrom = None, dateTo = None, filter_customer = [],
      filter_project = ''p1'', groupBy = ByCustomer, billableOnly = False\<rparr>"
      3600000 1704110400000
      "[\<lparr>entry_id = ''e1'', task_id = ''t1'', customer_id = Some ''c1'',
       start_time = None, end_time = None,
       task = None, customer = Some \<lparr>cust_id = ''c1'', cust_name = ''Acme''\<rparr>,
       duration_minutes = Some 90, duration = None, date = Some 19723,
       billable = True, rate = None, created_at = Some 1704103200000\<rparr>]"
      "\<lambda>s. None" "\<lambda>a b. 0" Week]
  by simp

section \<open>Properties of the report by dimension\<close>

lemma set_insertBy: "set (insertBy cmp x ys) = insert x (set ys)"
  by (induction ys) auto

lemma insertBy_descending:
  "sorted_wrt (\<lambda>a b. rd_seconds b \<le> rd_seconds a) ys \<Longrightarrow>
   sorted_wrt (\<lambda>a b. rd_seconds b \<le> rd_seconds a) (insertBy compareBySeconds x ys)"
proof (induction ys)
  case Nil
  then show ?case by simp
next
  case (Cons y ys)
  show ?case
  proof (cases "compareBySeconds x y \<le> 0")
    case True
    then have "rd_seconds y \<le> rd_seconds x" by (simp add: compareBySeconds_def)
    with Cons.prems True show ?thesis by fastforce
  next
    case False
    then have "rd_seconds x \<le> rd_seconds y" by (simp add: compareBySeconds_def)
    with Cons False show ?thesis by (auto simp add: set_insertBy)
  qed
qed

lemma jsSort_descending:
  "sorted_wrt (\<lambda>a b. rd_seconds b \<le> rd_seconds a) (jsSort compareBySeconds xs)"
  unfolding jsSort_def by (induction xs) (simp_all add: insertBy_descending)

lemma report_rows_descending:
  assumes "groupBy filters \<noteq> ByDay"
    and "generateReport dateParse tz now filters entries = Inr r"
  shows "sorted_wrt (\<lambda>a b. rd_seconds b \<le> rd_seconds a) (reportData r)"
  using assms
  by (auto simp add: generateReport_def Let_def jsSort_descending split: option.splits)

text \<open>
  Claim C4: rows grouped by customer or task come in descending order of their seconds
  (\<open>report_rows_descending\<close> above), and rows grouped by day in ascending chronological
  order. The day rows are renamed from \<^verbatim>\<open>yyyy-MM-dd\<close> to \<^verbatim>\<open>dd MMM\<close> before they are
  sorted, so the comparator sees no year. Take three entries, fetched newest first, dated
  2024-12-31 (180 minutes), 2024-01-01 (120 minutes) and 2023-12-31 (60 minutes). In
  chronological order the rows would carry 3600, 7200 and 10800 seconds. Whatever the
  host's \<^verbatim>\<open>new Date\<close> makes of the names \<^verbatim>\<open>31 dec.\<close> and \<^verbatim>\<open>01 jan.\<close>, the
  report does not list them so.
\<close>

theorem day_rows_not_chronological:
  "\<exists>r. generateReport dateParse 0 1735732800000
         \<lparr>dateFrom = None, dateTo = None, filter_customer = [],
      filter_project = [], groupBy = ByDay, billableOnly = False\<rparr>
         [\<lparr>entry_id = ''e3'', task_id = ''t1'', customer_id = None,
       start_time = None, end_time = None,
       task = None, customer = None,
       duration_minutes = Some 180, duration = None, date = Some 20088,
       billable = True, rate = None, created_at = Some 1704103200000\<rparr>,
      \<lparr>entry_id = ''e2'', task_id = ''t1'', customer_id = None,
       start_time = None, end_time = None,
       task = None, customer = None,
       duration_minutes = Some 120, duration = None, date = Some 19723,
       billable = True, rate = None, created_at = Some 1704103200000\<rparr>,
      \<lparr>entry_id = ''e1'', task_id = ''t1'', customer_id = None,
       start_time = None, end_time = None,
       task = None, customer = None,
       duration_minutes = Some 60, duration = None, date = Some 19722,
       billable = True, rate = None, created_at = Some 1704103200000\<rparr>] = Inr r
       \<and> map rd_seconds (reportData r) \<noteq> [3600, 7200, 10800]"
proof -
  let ?F = "\<lparr>dateFrom = None, dateTo = None, filter_customer = [],
      filter_project = [], groupBy = ByDay, billableOnly = False\<rparr>"
  let ?es = "[\<lparr>entry_id = ''e3'', task_id = ''t1'', customer_id = None,
       start_time = None, end_time = None,
       task = None, customer = None,
       duration_minutes = Some 180, duration = None, date = Some 20088,
       billable = True, rate = None, created_at = Some 1704103200000\<rparr>,
      \<lparr>entry_id = ''e2'', task_id = ''t1'', customer_id = None,
       start_time = None, end_time = None,
       task = None, customer = None,
       duration_minutes = Some 120, duration = None, date = Some 19723,
       billable = True, rate = None, created_at = Some 1704103200000\<rparr>,
      \<lparr>entry_id = ''e1'', task_id = ''t1'', customer_id = None,
       start_time = None, end_time = None,
       task = None, customer = None,
       duration_minutes = Some 60, duration = None, date = Some 19722,
       billable = True, rate = None, created_at = Some 1704103200000\<rparr>]"
  let ?rC = "\<lparr>rd_name = ''31 dec.'', rd_value = 3, rd_seconds = 10800,
          rd_billableHours = 3, rd_nonBillableHours = 0\<rparr>"
  let ?rB = "\<lparr>rd_name = ''01 jan.'', rd_value = 2, rd_seconds = 7200,
          rd_billableHours = 2, rd_nonBillableHours = 0\<rparr>"
  let ?rA = "\<lparr>rd_name = ''31 dec.'', rd_value = 1, rd_seconds = 3600,
          rd_billableHours = 1, rd_nonBillableHours = 0\<rparr>"
  have acc: "fold (reportStep 0 1735732800000 ?F) (filterTimeEntries 0 1735732800000 ?F ?es)
          \<lparr>groupedData = [], totalSeconds = 0, totalBillableSeconds = 0, totalNonBillableSeconds = 0\<rparr>
        = \<lparr>groupedData =
             [(''2024-12-31'', \<lparr>d_total = 10800, d_billable = 10800, d_nonBillable = 0\<rparr>),
              (''2024-01-01'', \<lparr>d_total = 7200, d_billable = 7200, d_nonBillable = 0\<rparr>),
              (''2023-12-31'', \<lparr>d_total = 3600, d_billable = 3600, d_nonBillable = 0\<rparr>)],
            totalSeconds = 21600, totalBillableSeconds = 21600, totalNonBillableSeconds = 0\<rparr>"
    by code_simp
  have rows: "those (map (reportRow 0 ?F)
        (objectEntries
           [(''2024-12-31'', \<lparr>d_total = 10800, d_billable = 10800, d_nonBillable = 0\<rparr>),
            (''2024-01-01'', \<lparr>d_total = 7200, d_billable = 7200, d_nonBillable = 0\<rparr>),
            (''2023-12-31'', \<lparr>d_total = 3600, d_billable = 3600, d_nonBillable = 0\<rparr>)]))
        = Some [?rC, ?rB, ?rA]"
    by code_simp
  have tot: "round2 6 = 6" "round2 0 = 0"
    by code_simp+
  have rep: "generateReport dateParse 0 1735732800000 ?F ?es
      = Inr \<lparr>reportData = jsSort (compareByDate dateParse) [?rC, ?rB, ?rA],
             totalHours = 6, totalBillableHours = 6, totalNonBillableHours = 0\<rparr>"
    unfolding generateReport_def Let_def acc
    by (simp add: rows tot)
  have srt: "map rd_seconds (jsSort (compareByDate dateParse) [?rC, ?rB, ?rA]) \<noteq> [3600, 7200, 10800]"
    by (simp add: jsSort_def compareByDate_def split: option.splits)
  show ?thesis unfolding rep using srt by simp
qed

section \<open>Properties of the client summaries\<close>

lemma set_jsSort: "set (jsSort cmp xs) = set xs"
  unfolding jsSort_def by (induction xs) (simp_all add: set_insertBy)

lemma set_objectEntries: "set (objectEntries obj) = set obj"
  by (auto simp add: objectEntries_def)

lemma groupClients_invariant:
  "groupClients es g0 = Inr g \<Longrightarrow> distinct (map fst g0) \<Longrightarrow>
     distinct (map fst g) \<and> (\<forall>k. groupEntries g k = groupEntries g0 k @ clientEntries k es)"
proof (induction es arbitrary: g0)
  case Nil
  then show ?case by (simp add: clientEntries_def)
next
  case (Cons e es)
  show ?case
  proof (cases "customer e")
    case None
    with Cons show ?thesis by (simp add: clientEntries_def)
  next
    case (Some c)
    note cs = Some
    show ?thesis
    proof (cases "customer_id e = None")
      case True
      with Cons cs show ?thesis by (simp add: clientEntries_def)
    next
      case False
      note idp = False
      show ?thesis
      proof (cases "cust_id c \<in> set objectPrototypeKeys")
        case True
        with Cons.prems cs idp show ?thesis by simp
      next
        case False
        note np = False
        show ?thesis
        proof (cases "map_of g0 (cust_id c)")
          case None
          let ?g1 = "g0 @ [(cust_id c, [e], c)]"
          from Cons.prems cs idp np None have r: "groupClients es ?g1 = Inr g" by simp
          from None have nk: "cust_id c \<notin> set (map fst g0)"
            by (simp add: map_of_eq_None_iff)
          with Cons.prems(2) have d1: "distinct (map fst ?g1)" by simp
          from Cons.IH[OF r d1] have d: "distinct (map fst g)"
            and i: "\<And>k. groupEntries g k = groupEntries ?g1 k @ clientEntries k es" by auto
          have p1: "\<And>k. groupEntries ?g1 k = groupEntries g0 k @ (if k = cust_id c then [e] else [])"
            using None by (auto simp add: groupEntries_def map_add_def split: option.splits)
          have ce: "\<And>k. clientEntries k (e # es) = (if k = cust_id c then [e] else []) @ clientEntries k es"
            using cs idp by (auto simp add: clientEntries_def)
          show ?thesis using d i p1 ce by simp
        next
          case (Some p)
          let ?g1 = "map (\<lambda>q. if fst q = cust_id c then (fst q, fst (snd q) @ [e], snd (snd q)) else q) g0"
          from Cons.prems cs idp np Some have r: "groupClients es ?g1 = Inr g" by simp
          have k1: "map fst ?g1 = map fst g0" by (induction g0) auto
          have d1: "distinct (map fst ?g1)" unfolding k1 by (rule Cons.prems(2))
          from Cons.IH[OF r d1] have d: "distinct (map fst g)"
            and i: "\<And>k. groupEntries g k = groupEntries ?g1 k @ clientEntries k es" by auto
          have m1: "\<And>k. map_of ?g1 k =
              (if k = cust_id c then map_option (\<lambda>v. (fst v @ [e], snd v)) (map_of g0 k) else map_of g0 k)"
            by (induction g0) auto
          have p1: "\<And>k. groupEntries ?g1 k = groupEntries g0 k @ (if k = cust_id c then [e] else [])"
            using Some by (auto simp add: groupEntries_def m1 split: option.splits)
          have ce: "\<And>k. clientEntries k (e # es) = (if k = cust_id c then [e] else []) @ clientEntries k es"
            using cs idp by (auto simp add: clientEntries_def)
          show ?thesis using d i p1 ce by simp
        qed
      qed
    qed
  qed
qed

lemma groupClients_groups:
  assumes "groupClients es [] = Inr g" "(k, xs, c) \<in> set g"
  shows "xs = clientEntries k es"
proof -
  from groupClients_invariant[OF assms(1)] have d: "distinct (map fst g)"
    and i: "\<And>k. groupEntries g k = clientEntries k es" by (auto simp add: groupEntries_def)
  from d assms(2) have "map_of g k = Some (xs, c)" by simp
  then have "groupEntries g k = xs" by (simp add: groupEntries_def)
  with i show ?thesis by simp
qed

lemma groupClients_skips:
  "groupClients (filter hasCustomer es) g = groupClients es g"
  by (induction es arbitrary: g) (auto simp add: hasCustomer_def split: option.splits)


lemma clientSummaries_member:
  assumes "generateClientSummaries now es = Inr summaries" "s \<in> set summaries"
  shows "\<exists>k c. s = clientSummary now (k, clientEntries k es, c) \<and> 0 < cs_totalHours s"
proof -
  from assms(1) obtain g where g: "groupClients es [] = Inr g"
    and summaries: "summaries = jsSort (\<lambda>a b. cs_totalHours b - cs_totalHours a)
                 (filter (\<lambda>summary. 0 < cs_totalHours summary)
                    (map (clientSummary now) (objectEntries g)))"
    by (auto simp add: generateClientSummaries_def Let_def split: sum.splits)
  from assms(2) summaries obtain p where p: "p \<in> set g" "s = clientSummary now p" "0 < cs_totalHours s"
    by (auto simp add: set_jsSort set_objectEntries)
  obtain k xs c where pk: "p = (k, xs, c)" by (cases p) auto
  from groupClients_groups[OF g] p(1) pk have "xs = clientEntries k es" by simp
  with p pk show ?thesis by auto
qed

lemma clientEntries_member:
  "e \<in> set (clientEntries k es) \<Longrightarrow> e \<in> set es \<and> hasCustomer e \<and> map_option cust_id (customer e) = Some k"
  by (auto simp add: clientEntries_def hasCustomer_def split: option.splits)

text \<open>
  Claim C10: the client-summary pass takes an entry only when both its
  \<^verbatim>\<open>customer_id\<close> and its joined customer record are present. The client summaries
  of an entry list are those of its entries that have both: the others change nothing,
  and every summary row is the customer of an entry that has both, so there is no
  sentinel row. The grouping by customer does keep such an entry: a fetched row that
  misses either one has no customer record, and is grouped under
  \<^verbatim>\<open>Unknown Customer\<close>.
\<close>

theorem client_summaries_need_customer:
  "generateClientSummaries now (filter hasCustomer entries) = generateClientSummaries now entries
   \<and> (generateClientSummaries now entries = Inr summaries \<and> s \<in> set summaries \<longrightarrow>
        (\<exists>e. e \<in> set entries \<and> hasCustomer e \<and> map_option cust_id (customer e) = Some (clientId s)))
   \<and> (fetched e \<and> \<not> hasCustomer e \<longrightarrow>
        groupKey tz now (filters\<lparr>groupBy := ByCustomer\<rparr>) e = ''Unknown Customer'')"
proof -
  have a: "generateClientSummaries now (filter hasCustomer entries) = generateClientSummaries now entries"
    by (simp add: generateClientSummaries_def groupClients_skips)
  have b: "generateClientSummaries now entries = Inr summaries \<and> s \<in> set summaries \<longrightarrow>
        (\<exists>e. e \<in> set entries \<and> hasCustomer e \<and> map_option cust_id (customer e) = Some (clientId s))"
  proof (intro impI, elim conjE)
    assume h: "generateClientSummaries now entries = Inr summaries" "s \<in> set summaries"
    from clientSummaries_member[OF h] obtain k c'
      where s: "s = clientSummary now (k, clientEntries k entries, c')" and pos: "0 < cs_totalHours s"
      by blast
    have k: "clientId s = k" by (simp add: s clientSummary_def Let_def)
    have "clientEntries k entries \<noteq> []"
    proof
      assume "clientEntries k entries = []"
      then have "cs_totalHours s = 0"
        by (simp add: s clientSummary_def Let_def sumSeconds_def round2_zero)
      with pos show False by simp
    qed
    then obtain e' where "e' \<in> set (clientEntries k entries)" by (cases "clientEntries k entries") auto
    from clientEntries_member[OF this]
    show "\<exists>e. e \<in> set entries \<and> hasCustomer e \<and> map_option cust_id (customer e) = Some (clientId s)"
      unfolding k by (intro exI[of _ e'])
  qed
  have c: "fetched e \<and> \<not> hasCustomer e \<longrightarrow>
        groupKey tz now (filters\<lparr>groupBy := ByCustomer\<rparr>) e = ''Unknown Customer''"
    by (auto simp add: fetched_def hasCustomer_def groupKey_def split: option.splits)
  from a b c show ?thesis by blast
qed

theorem client_summaries_need_customer_witness:
  "generateClientSummaries 1704110400000 (filter hasCustomer
     [\<lparr>entry_id = ''e1'', task_id = ''t1'', customer_id = None,
       start_time = None, end_time = None,
       task = None, customer = None,
       duration_minutes = Some 60, duration = None, date = Some 19723,
       billable = True, rate = None, created_at = Some 1704103200000\<rparr>,
      \<lparr>entry_id = ''e2'', task_id = ''t1'', customer_id = Some ''c2'',
       start_time = None, end_time = None,
       task = None, customer = None,
       duration_minutes = Some 30, duration = None, date = Some 19723,
       billable = True, rate = None, created_at = Some 1704103200000\<rparr>,
      \<lparr>entry_id = ''e3'', task_id = ''t1'', customer_id = Some ''c1'',
       start_time = None, end_time = None,
       task = None, customer = Some \<lparr>cust_id = ''c1'', cust_name = ''Acme''\<rparr>,
       duration_minutes = Some 60, duration = None, date = Some 19723,
       billable = True, rate = None, created_at = Some 1704103200000\<rparr>])
     = Inr [\<lparr>clientId = ''c1'', clientName = ''Acme'', cs_totalHours = 1,
       cs_billableHours = 1, cs_nonBillableHours = 0, billableAmount = 0\<rparr>]
   \<and> generateClientSummaries 1704110400000
     [\<lparr>entry_id = ''e1'', task_id = ''t1'', customer_id = None,
       start_time = None, end_time = None,
       task = None, customer = None,
       duration_minutes = Some 60, duration = None, date = Some 19723,
       billable = True, rate = None, created_at = Some 1704103200000\<rparr>,
      \<lparr>entry_id = ''e2'', task_id = ''t1'', customer_id = Some ''c2'',
       start_time = None, end_time = None,
       task = None, customer = None,
       duration_minutes = Some 30, duration = None, date = Some 19723,
       billable = True, rate = None, created_at = Some 1704103200000\<rparr>,
      \<lparr>entry_id = ''e3'', task_id = ''t1'', customer_id = Some ''c1'',
       start_time = None, end_time = None,
       task = None, customer = Some \<lparr>cust_id = ''c1'', cust_name = ''Acme''\<rparr>,
       duration_minutes = Some 60, duration = None, date = Some 19723,
       billable = True, rate = None, created_at = Some 1704103200000\<rparr>]
     = Inr [\<lparr>clientId = ''c1'', clientName = ''Acme'', cs_totalHours = 1,
       cs_billableHours = 1, cs_nonBillableHours = 0, billableAmount = 0\<rparr>]
   \<and> (\<exists>e. e \<in> set
     [\<lparr>entry_id = ''e1'', task_id = ''t1'', customer_id = None,
       start_time = None, end_time = None,
       task = None, customer = None,
       duration_minutes = Some 60, duration = None, date = Some 19723,
       billable = True, rate = None, created_at = Some 1704103200000\<rparr>,
      \<lparr>entry_id = ''e2'', task_id = ''t1'', customer_id = Some ''c2'',
       start_time = None, end_time = None,
       task = None, customer = None,
       duration_minutes = Some 30, duration = None, date = Some 19723,
       billable = True, rate = None, created_at = Some 1704103200000\<rparr>,
      \<lparr>entry_id = ''e3'', task_id = ''t1'', customer_id = Some ''c1'',
       start_time = None, end_time = None,
       task = None, customer = Some \<lparr>cust_id = ''c1'', cust_name = ''Acme''\<rparr>,
       duration_minutes = Some 60, duration = None, date = Some 19723,
       billable = True, rate = None, created_at = Some 1704103200000\<rparr>]
       \<and> hasCustomer e \<and> map_option cust_id (customer e) = Some ''c1'')
   \<and> groupKey 0 1704110400000
     \<lparr>dateFrom = None, dateTo = None, filter_customer = [],
      filter_project = [], groupBy = ByCustomer, billableOnly = False\<rparr>
     \<lparr>entry_id = ''e1'', task_id = ''t1'', customer_id = None,
      start_time = None, end_time = None,
      task = None, customer = None,
      duration_minutes = Some 60, duration = None, date = Some 19723,
      billable = True, rate = None, created_at = Some 1704103200000\<rparr> = ''Unknown Customer''
   \<and> groupKey 0 1704110400000
     \<lparr>dateFrom = None, dateTo = None, filter_customer = [],
      filter_project = [], groupBy = ByCustomer, billableOnly = False\<rparr>
     \<lparr>entry_id = ''e2'', task_id = ''t1'', customer_id = Some ''c2'',
      start_time = None, end_time = None,
      task = None, customer = None,
      duration_minutes = Some 30, duration = None, date = Some 19723,
      billable = True, rate = None, created_at = Some 1704103200000\<rparr> = ''Unknown Customer''
   \<and> generateReport (\<lambda>s. None) 0 1704110400000
     \<lparr>dateFrom = None, dateTo = None, filter_customer = [],
      filter_project = [], groupBy = ByCustomer, billableOnly = False\<rparr>
     [\<lparr>entry_id = ''e1'', task_id = ''t1'', customer_id = None,
       start_time = None, end_time = None,
       task = None, customer = None,
       duration_minutes = Some 60, duration = None, date = Some 19723,
       billable = True, rate = None, created_at = Some 1704103200000\<rparr>,
      \<lparr>entry_id = ''e2'', task_id = ''t1'', customer_id = Some ''c2'',
       start_time = None, end_time = None,
       task = None, customer = None,
       duration_minutes = Some 30, duration = None, date = Some 19723,
       billable = True, rate = None, created_at = Some 1704103200000\<rparr>,
      \<lparr>entry_id = ''e3'', task_id = ''t1'', customer_id = Some ''c1'',
       start_time = None, end_time = None,
       task = None, customer = Some \<lparr>cust_id = ''c1'', cust_name = ''Acme''\<rparr>,
       duration_minutes = Some 60, duration = None, date = Some 19723,
       billable = True, rate = None, created_at = Some 1704103200000\<rparr>]
     = Inr \<lparr>reportData =
              [\<lparr>rd_name = ''Unknown Customer'', rd_value = 3 / 2, rd_seconds = 5400,
                rd_billableHours = 3 / 2, rd_nonBillableHours = 0\<rparr>,
               \<lparr>rd_name = ''Acme'', rd_value = 1, rd_seconds = 3600,
                rd_billableHours = 1, rd_nonBillableHours = 0\<rparr>],
            totalHours = 5 / 2, totalBillableHours = 5 / 2, totalNonBillableHours = 0\<rparr>"
proof -
  have run: "generateClientSummaries 1704110400000
     [\<lparr>entry_id = ''e1'', task_id = ''t1'', customer_id = None,
       start_time = None, end_time = None,
       task = None, customer = None,
       duration_minutes = Some 60, duration = None, date = Some 19723,
       billable = True, rate = None, created_at = Some 1704103200000\<rparr>,
      \<lparr>entry_id = ''e2'', task_id = ''t1'', customer_id = Some ''c2'',
       start_time = None, end_time = None,
       task = None, customer = None,
       duration_minutes = Some 30, duration = None, date = Some 19723,
       billable = True, rate = None, created_at = Some 1704103200000\<rparr>,
      \<lparr>entry_id = ''e3'', task_id = ''t1'', customer_id = Some ''c1'',
       start_time = None, end_time = None,
       task = None, customer = Some \<lparr>cust_id = ''c1'', cust_name = ''Acme''\<rparr>,
       duration_minutes = Some 60, duration = None, date = Some 19723,
       billable = True, rate = None, created_at = Some 1704103200000\<rparr>]
     = Inr [\<lparr>clientId = ''c1'', clientName = ''Acme'', cs_totalHours = 1,
       cs_billableHours = 1, cs_nonBillableHours = 0, billableAmount = 0\<rparr>]"
    by code_simp
  have rep: "generateReport (\<lambda>s. None) 0 1704110400000
     \<lparr>dateFrom = None, dateTo = None, filter_customer = [],
      filter_project = [], groupBy = ByCustomer, billableOnly = False\<rparr>
     [\<lparr>entry_id = ''e1'', task_id = ''t1'', customer_id = None,
       start_time = None, end_time = None,
       task = None, customer = None,
       duration_minutes = Some 60, duration = None, date = Some 19723,
       billable = True, rate = None, created_at = Some 1704103200000\<rparr>,
      \<lparr>entry_id = ''e2'', task_id = ''t1'', customer_id = Some ''c2'',
       start_time = None, end_time = None,
       task = None, customer = None,
       duration_minutes = Some 30, duration = None, date = Some 19723,
       billable = True, rate = None, created_at = Some 1704103200000\<rparr>,
      \<lparr>entry_id = ''e3'', task_id = ''t1'', customer_id = Some ''c1'',
       start_time = None, end_time = None,
       task = None, customer = Some \<lparr>cust_id = ''c1'', cust_name = ''Acme''\<rparr>,
       duration_minutes = Some 60, duration = None, date = Some 19723,
       billable = True, rate = None, created_at = Some 1704103200000\<rparr>]
     = Inr \<lparr>reportData =
              [\<lparr>rd_name = ''Unknown Customer'', rd_value = 3 / 2, rd_seconds = 5400,
                rd_billableHours = 3 / 2, rd_nonBillableHours = 0\<rparr>,
               \<lparr>rd_name = ''Acme'', rd_value = 1, rd_seconds = 3600,
                rd_billableHours = 1, rd_nonBillableHours = 0\<rparr>],
            totalHours = 5 / 2, totalBillableHours = 5 / 2, totalNonBillableHours = 0\<rparr>"
    by code_simp
  from
    client_summaries_need_customer [of 1704110400000
      "[\<lparr>entry_id = ''e1'', task_id = ''t1'', customer_id = None,
       start_time = None, end_time = None,
       task = None, customer = None,
       duration_minutes = Some 60, duration = None, date = Some 19723,
       billable = True, rate = None, created_at = Some 1704103200000\<rparr>,
      \<lparr>entry_id = ''e2'', task_id = ''t1'', customer_id = Some ''c2'',
       start_time = None, end_time = None,
       task = None, customer = None,
       duration_minutes = Some 30, duration = None, date = Some 19723,
       billable = True, rate = None, created_at = Some 1704103200000\<rparr>,
      \<lparr>entry_id = ''e3'', task_id = ''t1'', customer_id = Some ''c1'',
       start_time = None, end_time = None,
       task = None, customer = Some \<lparr>cust_id = ''c1'', cust_name = ''Acme''\<rparr>,
       duration_minutes = Some 60, duration = None, date = Some 19723,
       billable = True, rate = None, created_at = Some 1704103200000\<rparr>]"
      "[\<lparr>clientId = ''c1'', clientName = ''Acme'', cs_totalHours = 1,
       cs_billableHours = 1, cs_nonBillableHours = 0, billableAmount = 0\<rparr>]"
      "\<lparr>clientId = ''c1'', clientName = ''Acme'', cs_totalHours = 1,
       cs_billableHours = 1, cs_nonBillableHours = 0, billableAmount = 0\<rparr>"
      "\<lparr>entry_id = ''e1'', task_id = ''t1'', customer_id = None,
      start_time = None, end_time = None,
      task = None, customer = None,
      duration_minutes = Some 60, duration = None, date = Some 19723,
      billable = True, rate = None, created_at = Some 1704103200000\<rparr>"
      0
      "\<lparr>dateFrom = None, dateTo = None, filter_customer = [],
      filter_project = [], groupBy = ByCustomer, billableOnly = False\<rparr>"]
    client_summaries_need_customer [of 1704110400000
      "[\<lparr>entry_id = ''e1'', task_id = ''t1'', customer_id = None,
       start_time = None, end_time = None,
       task = None, customer = None,
       duration_minutes = Some 60, duration = None, date = Some 19723,
       billable = True, rate = None, created_at = Some 1704103200000\<rparr>,
      \<lparr>entry_id = ''e2'', task_id = ''t1'', customer_id = Some ''c2'',
       start_time = None, end_time = None,
       task = None, customer = None,
       duration_minutes = Some 30, duration = None, date = Some 19723,
       billable = True, rate = None, created_at = Some 1704103200000\<rparr>,
      \<lparr>entry_id = ''e3'', task_id = ''t1'', customer_id = Some ''c1'',
       start_time = None, end_time = None,
       task = None, customer = Some \<lparr>cust_id = ''c1'', cust_name = ''Acme''\<rparr>,
       duration_minutes = Some 60, duration = None, date = Some 19723,
       billable = True, rate = None, created_at = Some 1704103200000\<rparr>]"
      "[\<lparr>clientId = ''c1'', clientName = ''Acme'', cs_totalHours = 1,
       cs_billableHours = 1, cs_nonBillableHours = 0, billableAmount = 0\<rparr>]"
      "\<lparr>clientId = ''c1'', clientName = ''Acme'', cs_totalHours = 1,
       cs_billableHours = 1, cs_nonBillableHours = 0, billableAmount = 0\<rparr>"
      "\<lparr>entry_id = ''e2'', task_id = ''t1'', customer_id = Some ''c2'',
      start_time = None, end_time = None,
      task = None, customer = None,
      duration_minutes = Some 30, duration = None, date = Some 19723,
      billable = True, rate = None, created_at = Some 1704103200000\<rparr>"
      0
      "\<lparr>dateFrom = None, dateTo = None, filter_customer = [],
      filter_project = [], groupBy = ByCustomer, billableOnly = False\<rparr>"]
  show ?thesis using run rep by (simp add: fetched_def hasCustomer_def)
qed

section \<open>The report and the wall clock\<close>

text \<open>
  Claim C8 says that the same entries and the same filter always give the same report.
  The code reads the wall clock: a running entry, started at 09:00, makes a row of one
  hour in a report drawn at 10:00 and of two hours in a report drawn at 11:00.
\<close>

theorem report_reads_the_clock:
  "generateReport (\<lambda>s. None) 0 1704103200000
     \<lparr>dateFrom = None, dateTo = None, filter_customer = [],
      filter_project = [], groupBy = ByCustomer, billableOnly = False\<rparr>
     [\<lparr>entry_id = ''e1'', task_id = ''t1'', customer_id = None,
       start_time = Some 1704099600000, end_time = None,
       task = None, customer = None,
       duration_minutes = None, duration = None, date = None,
       billable = True, rate = None, created_at = Some 1704099600000\<rparr>]
     = Inr \<lparr>reportData =
              [\<lparr>rd_name = ''Unknown Customer'', rd_value = 1, rd_seconds = 3600,
                rd_billableHours = 1, rd_nonBillableHours = 0\<rparr>],
            totalHours = 1, totalBillableHours = 1, totalNonBillableHours = 0\<rparr>
   \<and> generateReport (\<lambda>s. None) 0 1704106800000
     \<lparr>dateFrom = None, dateTo = None, filter_customer = [],
      filter_project = [], groupBy = ByCustomer, billableOnly = False\<rparr>
     [\<lparr>entry_id = ''e1'', task_id = ''t1'', customer_id = None,
       start_time = Some 1704099600000, end_time = None,
       task = None, customer = None,
       duration_minutes = None, duration = None, date = None,
       billable = True, rate = None, created_at = Some 1704099600000\<rparr>]
     = Inr \<lparr>reportData =
              [\<lparr>rd_name = ''Unknown Customer'', rd_value = 2, rd_seconds = 7200,
                rd_billableHours = 2, rd_nonBillableHours = 0\<rparr>],
            totalHours = 2, totalBillableHours = 2, totalNonBillableHours = 0\<rparr>"
  by code_simp

lemma settled_duration: "settled e \<Longrightarrow> calculateDuration now1 e = calculateDuration now2 e"
  by (auto simp add: settled_def calculateDuration_def split: option.splits)

lemma settled_date: "settled e \<Longrightarrow> reportEntryDate now1 e = reportEntryDate now2 e"
  by (auto simp add: settled_def reportEntryDate_def split: option.splits)

lemma settled_keepEntry: "settled e \<Longrightarrow> keepEntry tz now1 filters e = keepEntry tz now2 filters e"
  using settled_date[of e now1 now2] by (simp add: keepEntry_def)

lemma settled_filter:
  "list_all settled es \<Longrightarrow> filterTimeEntries tz now1 filters es = filterTimeEntries tz now2 filters es"
  unfolding filterTimeEntries_def
  by (rule filter_cong) (auto simp add: list_all_iff settled_keepEntry)

lemma settled_filtered: "list_all settled es \<Longrightarrow> list_all settled (filterTimeEntries tz now filters es)"
  by (simp add: filterTimeEntries_def list_all_iff)

lemma fold_cong_set: "(\<And>x. x \<in> set xs \<Longrightarrow> f x = g x) \<Longrightarrow> fold f xs a = fold g xs a"
  by (induction xs arbitrary: a) auto

lemma settled_groupKey:
  "settled e \<Longrightarrow> groupKey tz now1 filters e = groupKey tz now2 filters e"
  using settled_date[of e now1 now2]
  by (cases "groupBy filters") (simp_all add: groupKey_def)

lemma settled_reportStep:
  "settled e \<Longrightarrow> reportStep tz now1 filters e = reportStep tz now2 filters e"
  using settled_duration[of e now1 now2] settled_groupKey[of e tz now1 filters now2]
  by (intro ext) (simp add: reportStep_def)

lemma settled_report:
  assumes "list_all settled es"
  shows "generateReport dateParse tz now1 filters es = generateReport dateParse tz now2 filters es"
proof -
  have f: "filterTimeEntries tz now1 filters es = filterTimeEntries tz now2 filters es"
    using assms by (rule settled_filter)
  have "list_all settled (filterTimeEntries tz now2 filters es)"
    using assms by (rule settled_filtered)
  then have "\<And>a. fold (reportStep tz now1 filters) (filterTimeEntries tz now2 filters es) a
         = fold (reportStep tz now2 filters) (filterTimeEntries tz now2 filters es) a"
    by (intro fold_cong_set settled_reportStep) (simp add: list_all_iff)
  then show ?thesis by (simp add: generateReport_def f)
qed

lemma settled_sums:
  assumes "list_all settled xs"
  shows "sumSeconds now1 xs = sumSeconds now2 xs"
    and "sumBillableSeconds now1 xs = sumBillableSeconds now2 xs"
    and "sumNonBillableSeconds now1 xs = sumNonBillableSeconds now2 xs"
    and "sumBillableAmount now1 xs = sumBillableAmount now2 xs"
  unfolding sumSeconds_def sumBillableSeconds_def sumNonBillableSeconds_def sumBillableAmount_def
  using assms
  by (auto intro!: fold_cong_set ext simp add: list_all_iff settled_duration[of _ now1 now2]
      split: option.splits)

lemma pushToGroup_members:
  assumes "\<forall>p \<in> set obj. list_all settled (snd p)" "settled e"
  shows "\<forall>p \<in> set (pushToGroup key e obj). list_all settled (snd p)"
  using assms by (auto simp add: pushToGroup_def split: option.splits)

lemma periodGroups_members:
  assumes "list_all settled es" "\<forall>p \<in> set obj. list_all settled (snd p)"
  shows "\<forall>p \<in> set (fold (\<lambda>entry. pushToGroup (key entry) entry) es obj). list_all settled (snd p)"
  using assms
proof (induction es arbitrary: obj)
  case Nil
  then show ?case by simp
next
  case (Cons e es)
  from Cons.prems have "\<forall>p \<in> set (pushToGroup (key e) e obj). list_all settled (snd p)"
    by (intro pushToGroup_members) auto
  with Cons show ?case by simp
qed

lemma settled_periodSummary:
  "list_all settled (snd p) \<Longrightarrow> periodSummary tz now1 view p = periodSummary tz now2 view p"
  by (simp add: periodSummary_def settled_sums[of "snd p" now1 now2])

lemma settled_periods:
  assumes "list_all settled es"
  shows "generatePeriodSummaries localeCompare tz now1 filters view es
       = generatePeriodSummaries localeCompare tz now2 filters view es"
proof -
  let ?fs = "filterTimeEntries tz now2 filters es"
  have f: "filterTimeEntries tz now1 filters es = ?fs"
    using assms by (rule settled_filter)
  have st: "list_all settled ?fs"
    using assms by (rule settled_filtered)
  have g: "fold (\<lambda>entry. pushToGroup (periodKey tz view (reportEntryDate now1 entry)) entry) ?fs []
         = fold (\<lambda>entry. pushToGroup (periodKey tz view (reportEntryDate now2 entry)) entry) ?fs []"
    using st by (intro fold_cong_set) (simp add: list_all_iff settled_date[of _ now1 now2])
  let ?g = "fold (\<lambda>entry. pushToGroup (periodKey tz view (reportEntryDate now2 entry)) entry) ?fs []"
  have m: "\<forall>p \<in> set ?g. list_all settled (snd p)"
    using st by (intro periodGroups_members) simp_all
  have me: "map (periodSummary tz now1 view) (objectEntries ?g) = map (periodSummary tz now2 view) (objectEntries ?g)"
    using m by (intro map_cong refl settled_periodSummary) (simp add: set_objectEntries)
  show ?thesis unfolding generatePeriodSummaries_def Let_def f g me by (rule refl)
qed

lemma clientEntries_settled: "list_all settled es \<Longrightarrow> list_all settled (clientEntries k es)"
  by (simp add: clientEntries_def list_all_iff)

lemma settled_clients:
  assumes "list_all settled es"
  shows "generateClientSummaries now1 es = generateClientSummaries now2 es"
proof (cases "groupClients es []")
  case (Inl err)
  then show ?thesis by (simp add: generateClientSummaries_def)
next
  case (Inr g)
  have "\<And>p. p \<in> set g \<Longrightarrow> clientSummary now1 p = clientSummary now2 p"
  proof -
    fix p assume p: "p \<in> set g"
    obtain k xs c where pk: "p = (k, xs, c)" by (cases p) auto
    from groupClients_groups[OF Inr] p pk have "xs = clientEntries k es" by simp
    with assms have "list_all settled xs" by (simp add: clientEntries_settled)
    then show "clientSummary now1 p = clientSummary now2 p"
      by (simp add: clientSummary_def pk settled_sums[of xs now1 now2])
  qed
  then have me: "map (clientSummary now1) (objectEntries g) = map (clientSummary now2) (objectEntries g)"
    by (intro map_cong refl) (simp add: set_objectEntries)
  show ?thesis unfolding generateClientSummaries_def Let_def Inr sum.case me by (rule refl)
qed

text \<open>
  Claim C8, amended. The report rows, the period summaries and the client summaries are
  functions of the entries, the filter configuration and the instant at which they are
  computed. When every entry is settled (it has a \<^verbatim>\<open>date\<close> or a \<^verbatim>\<open>start_time\<close>, and
  is not a running entry), the three results do not depend on that instant.
\<close>

theorem report_independent_of_clock:
  assumes "list_all settled entries"
  shows "generateReport dateParse tz now1 filters entries = generateReport dateParse tz now2 filters entries
    \<and> generatePeriodSummaries localeCompare tz now1 filters view entries
        = generatePeriodSummaries localeCompare tz now2 filters view entries
    \<and> generateClientSummaries now1 entries = generateClientSummaries now2 entries"
  using settled_report[OF assms] settled_periods[OF assms] settled_clients[OF assms] by simp

theorem report_independent_of_clock_witness:
  "list_all settled
     [\<lparr>entry_id = ''e1'', task_id = ''t1'', customer_id = Some ''c1'',
       start_time = None, end_time = None,
       task = None, customer = Some \<lparr>cust_id = ''c1'', cust_name = ''Acme''\<rparr>,
       duration_minutes = Some 90, duration = None, date = Some 19723,
       billable = True, rate = Some 500, created_at = Some 1704103200000\<rparr>,
      \<lparr>entry_id = ''e2'', task_id = ''t1'', customer_id = Some ''c1'',
       start_time = Some 1704099600000, end_time = Some 1704105000000,
       task = None, customer = Some \<lparr>cust_id = ''c1'', cust_name = ''Acme''\<rparr>,
       duration_minutes = None, duration = None, date = None,
       billable = False, rate = None, created_at = Some 1704103200000\<rparr>]
   \<and> generateReport (\<lambda>s. None) 3600000 1704103200000
     \<lparr>dateFrom = Some 19723, dateTo = Some 19723, filter_customer = [],
      filter_project = [], groupBy = ByCustomer, billableOnly = False\<rparr>
     [\<lparr>entry_id = ''e1'', task_id = ''t1'', customer_id = Some ''c1'',
       start_time = None, end_time = None,
       task = None, customer = Some \<lparr>cust_id = ''c1'', cust_name = ''Acme''\<rparr>,
       duration_minutes = Some 90, duration = None, date = Some 19723,
       billable = True, rate = Some 500, created_at = Some 1704103200000\<rparr>,
      \<lparr>entry_id = ''e2'', task_id = ''t1'', customer_id = Some ''c1'',
       start_time = Some 1704099600000, end_time = Some 1704105000000,
       task = None, customer = Some \<lparr>cust_id = ''c1'', cust_name = ''Acme''\<rparr>,
       duration_minutes = None, duration = None, date = None,
       billable = False, rate = None, created_at = Some 1704103200000\<rparr>]
     = generateReport (\<lambda>s. None) 3600000 1735732800000
     \<lparr>dateFrom = Some 19723, dateTo = Some 19723, filter_customer = [],
      filter_project = [], groupBy = ByCustomer, billableOnly = False\<rparr>
     [\<lparr>entry_id = ''e1'', task_id = ''t1'', customer_id = Some ''c1'',
       start_time = None, end_time = None,
       task = None, customer = Some \<lparr>cust_id = ''c1'', cust_name = ''Acme''\<rparr>,
       duration_minutes = Some 90, duration = None, date = Some 19723,
       billable = True, rate = Some 500, created_at = Some 1704103200000\<rparr>,
      \<lparr>entry_id = ''e2'', task_id = ''t1'', customer_id = Some ''c1'',
       start_time = Some 1704099600000, end_time = Some 1704105000000,
       task = None, customer = Some \<lparr>cust_id = ''c1'', cust_name = ''Acme''\<rparr>,
       duration_minutes = None, duration = None, date = None,
       billable = False, rate = None, created_at = Some 1704103200000\<rparr>]
   \<and> generatePeriodSummaries (\<lambda>a b. 0) 3600000 1704103200000
     \<lparr>dateFrom = Some 19723, dateTo = Some 19723, filter_customer = [],
      filter_project = [], groupBy = ByCustomer, billableOnly = False\<rparr> Week
     [\<lparr>entry_id = ''e1'', task_id = ''t1'', customer_id = Some ''c1'',
       start_time = None, end_time = None,
       task = None, customer = Some \<lparr>cust_id = ''c1'', cust_name = ''Acme''\<rparr>,
       duration_minutes = Some 90, duration = None, date = Some 19723,
       billable = True, rate = Some 500, created_at = Some 1704103200000\<rparr>,
      \<lparr>entry_id = ''e2'', task_id = ''t1'', customer_id = Some ''c1'',
       start_time = Some 1704099600000, end_time = Some 1704105000000,
       task = None, customer = Some \<lparr>cust_id = ''c1'', cust_name = ''Acme''\<rparr>,
       duration_minutes = None, duration = None, date = None,
       billable = False, rate = None, created_at = Some 1704103200000\<rparr>]
     = generatePeriodSummaries (\<lambda>a b. 0) 3600000 1735732800000
     \<lparr>dateFrom = Some 19723, dateTo = Some 19723, filter_customer = [],
      filter_project = [], groupBy = ByCustomer, billableOnly = False\<rparr> Week
     [\<lparr>entry_id = ''e1'', task_id = ''t1'', customer_id = Some ''c1'',
       start_time = None, end_time = None,
       task = None, customer = Some \<lparr>cust_id = ''c1'', cust_name = ''Acme''\<rparr>,
       duration_minutes = Some 90, duration = None, date = Some 19723,
       billable = True, rate = Some 500, created_at = Some 1704103200000\<rparr>,
      \<lparr>entry_id = ''e2'', task_id = ''t1'', customer_id = Some ''c1'',
       start_time = Some 1704099600000, end_time = Some 1704105000000,
       task = None, customer = Some \<lparr>cust_id = ''c1'', cust_name = ''Acme''\<rparr>,
       duration_minutes = None, duration = None, date = None,
       billable = False, rate = None, created_at = Some 1704103200000\<rparr>]
   \<and> generateClientSummaries 1704103200000
     [\<lparr>entry_id = ''e1'', task_id = ''t1'', customer_id = Some ''c1'',
       start_time = None, end_time = None,
       task = None, customer = Some \<lparr>cust_id = ''c1'', cust_name = ''Acme''\<rparr>,
       duration_minutes = Some 90, duration = None, date = Some 19723,
       billable = True, rate = Some 500, created_at = Some 1704103200000\<rparr>,
      \<lparr>entry_id = ''e2'', task_id = ''t1'', customer_id = Some ''c1'',
       start_time = Some 1704099600000, end_time = Some 1704105000000,
       task = None, customer = Some \<lparr>cust_id = ''c1'', cust_name = ''Acme''\<rparr>,
       duration_minutes = None, duration = None, date = None,
       billable = False, rate = None, created_at = Some 1704103200000\<rparr>]
     = generateClientSummaries 1735732800000
     [\<lparr>entry_id = ''e1'', task_id = ''t1'', customer_id = Some ''c1'',
       start_time = None, end_time = None,
       task = None, customer = Some \<lparr>cust_id = ''c1'', cust_name = ''Acme''\<rparr>,
       duration_minutes = Some 90, duration = None, date = Some 19723,
       billable = True, rate = Some 500, created_at = Some 1704103200000\<rparr>,
      \<lparr>entry_id = ''e2'', task_id = ''t1'', customer_id = Some ''c1'',
       start_time = Some 1704099600000, end_time = Some 1704105000000,
       task = None, customer = Some \<lparr>cust_id = ''c1'', cust_name = ''Acme''\<rparr>,
       duration_minutes = None, duration = None, date = None,
       billable = False, rate = None, created_at = Some 1704103200000\<rparr>]"
proof -
  have h: "list_all settled
     [\<lparr>entry_id = ''e1'', task_id = ''t1'', customer_id = Some ''c1'',
       start_time = None, end_time = None,
       task = None, customer = Some \<lparr>cust_id = ''c1'', cust_name = ''Acme''\<rparr>,
       duration_minutes = Some 90, duration = None, date = Some 19723,
       billable = True, rate = Some 500, created_at = Some 1704103200000\<rparr>,
      \<lparr>entry_id = ''e2'', task_id = ''t1'', customer_id = Some ''c1'',
       start_time = Some 1704099600000, end_time = Some 1704105000000,
       task = None, customer = Some \<lparr>cust_id = ''c1'', cust_name = ''Acme''\<rparr>,
       duration_minutes = None, duration = None, date = None,
       billable = False, rate = None, created_at = Some 1704103200000\<rparr>]"
    by (simp add: settled_def)
  from report_independent_of_clock [OF h, of "\<lambda>s. None" 3600000 1704103200000
      "\<lparr>dateFrom = Some 19723, dateTo = Some 19723, filter_customer = [],
      filter_project = [], groupBy = ByCustomer, billableOnly = False\<rparr>"
      1735732800000 "\<lambda>a b. 0" Week] h
  show ?thesis by simp
qed

end
